theory Spec2Isabelle
  imports Main
begin

section \<open>Values, errors and the data model (api/models.py)\<close>

text \<open>
  A calendar day, as \<^verbatim>\<open>date.today()\<close> returns it, is modelled by its ordinal number.
  The clock is read once per request: \<open>today\<close> is a parameter of every operation that
  reads it.
\<close>

type_synonym date = int

text \<open>
  The detail of a \<^verbatim>\<open>ValidationError\<close>: a plain message, or a dictionary from field names
  to the messages of that field. \<^verbatim>\<open>NotFound\<close> carries its message. The remaining
  constructors are exceptions that no view catches: those of \<^verbatim>\<open>Model.save\<close> (the
  \<^verbatim>\<open>IntegrityError\<close> is the store refusing a second row with a username it has), and the
  \<^verbatim>\<open>OverflowError\<close> of Python's \<^verbatim>\<open>int\<close>.
\<close>

datatype detail = Message string | PerField "string \<Rightarrow> string list option"

datatype error =
    NotFound string
  | ValidationError detail
  | DatabaseError string
  | IntegrityError string
  | ValueError string
  | OverflowError string

record user =
  pk :: "nat option"
  username :: string
  password :: string
  protein_goal :: int
  todays_protein :: int
  protein_last_update :: date

record workout =
  w_pk :: nat
  w_name :: string
  w_owner :: nat

text \<open>
  The weight column is \<^verbatim>\<open>DecimalField(max_digits=5, decimal_places=2)\<close>: a stored weight
  is a number of hundredths, \<open>0\<close> being \<^verbatim>\<open>Decimal('0.00')\<close> and \<open>99999\<close> being
  \<^verbatim>\<open>Decimal('999.99')\<close>.
\<close>

record exercise =
  e_pk :: nat
  e_name :: string
  e_sets :: int
  e_reps :: int
  e_weight :: int
  e_workout :: nat

text \<open>
  The store: one table per model, and the primary-key sequence of each table. No view and
  no model method opens a transaction, so every \<^verbatim>\<open>save\<close> is committed when it is executed;
  an operation returns its outcome together with the store it leaves behind.

  The store also fixes how the lookup \<^verbatim>\<open>username__iexact\<close> compares a stored username
  with a value: \<open>iexact d stored value\<close>. The comparison is the database's, not Python's,
  and differs between backends.
\<close>

record db =
  users :: "user list"
  workouts :: "workout list"
  exercises :: "exercise list"
  user_seq :: nat
  workout_seq :: nat
  exercise_seq :: nat
  iexact :: "string \<Rightarrow> string \<Rightarrow> bool"

definition get_user :: "db \<Rightarrow> nat \<Rightarrow> user option" where
  "get_user d i = find (\<lambda>r. pk r = Some i) (users d)"

subsection \<open>\<^verbatim>\<open>str.lower\<close>\<close>

text \<open>
  A character of a \<open>string\<close> is a code point below 256, and a string is the Python
  \<^verbatim>\<open>str\<close> of these code points (its \<open>length\<close> is Python's \<^verbatim>\<open>len\<close>). On them
  \<^verbatim>\<open>str.lower\<close> folds the letters A to Z and the capital letters U+00C0 to U+00DE other
  than the multiplication sign U+00D7, each to the code point 32 above it, and leaves every
  other code point as it is.
\<close>

definition lower_char :: "char \<Rightarrow> char" where
  "lower_char c =
     (let n = (of_char c :: nat)
      in if (65 \<le> n \<and> n \<le> 90) \<or> (192 \<le> n \<and> n \<le> 214) \<or> (216 \<le> n \<and> n \<le> 222)
         then char_of (n + 32) else c)"

definition lower :: "string \<Rightarrow> string" where
  "lower s = map lower_char s"

subsection \<open>\<^verbatim>\<open>Model.save\<close> and \<^verbatim>\<open>User.save\<close>\<close>

text \<open>
  \<open>copy_field f inst row\<close> writes column \<open>f\<close> of the instance into the stored row.
  The views and methods of the repository name only the columns listed here.
\<close>

definition copy_field :: "string \<Rightarrow> user \<Rightarrow> user \<Rightarrow> user" where
  "copy_field f inst row =
     (if f = ''username'' then row\<lparr>username := username inst\<rparr>
      else if f = ''password'' then row\<lparr>password := password inst\<rparr>
      else if f = ''protein_goal'' then row\<lparr>protein_goal := protein_goal inst\<rparr>
      else if f = ''todays_protein'' then row\<lparr>todays_protein := todays_protein inst\<rparr>
      else if f = ''protein_last_update''
        then row\<lparr>protein_last_update := protein_last_update inst\<rparr>
      else row)"

fun copy_fields :: "string list \<Rightarrow> user \<Rightarrow> user \<Rightarrow> user" where
  "copy_fields [] inst row = row"
| "copy_fields (f # fs) inst row = copy_fields fs inst (copy_field f inst row)"

text \<open>
  The username column is unique (\<^verbatim>\<open>AbstractUser.username\<close>): the store refuses to write
  a username that another row has.
\<close>

definition username_taken :: "db \<Rightarrow> nat option \<Rightarrow> string \<Rightarrow> bool" where
  "username_taken d key name = list_ex (\<lambda>r. pk r \<noteq> key \<and> username r = name) (users d)"

text \<open>
  Django's \<^verbatim>\<open>Model.save\<close>. With \<^verbatim>\<open>update_fields\<close> it updates the listed columns of the
  row whose primary key is the instance's, and raises when there is no such row. Without,
  it updates every column of that row, or inserts the instance when no row has its key
  (taking the next key of the sequence when the instance has none). Either way the write
  of a username that another row has raises \<^verbatim>\<open>IntegrityError\<close> and writes nothing.
\<close>

definition Model_save :: "string list option \<Rightarrow> user \<Rightarrow> db \<Rightarrow> (error + user) \<times> db" where
  "Model_save update_fields inst d =
     (case update_fields of
        Some fs \<Rightarrow>
          (case pk inst of
             None \<Rightarrow> (Inl (ValueError ''Cannot force an update in save() with no primary key.''), d)
           | Some i \<Rightarrow>
               (case get_user d i of
                  None \<Rightarrow>
                    (Inl (DatabaseError ''Save with update_fields did not affect any rows.''), d)
                | Some _ \<Rightarrow>
                    if ''username'' \<in> set fs \<and> username_taken d (Some i) (username inst)
                    then (Inl (IntegrityError ''UNIQUE constraint failed: api_user.username''), d)
                    else
                      (Inr inst,
                       d\<lparr>users := map (\<lambda>r. if pk r = Some i then copy_fields fs inst r else r)
                                     (users d)\<rparr>)))
      | None \<Rightarrow>
          if username_taken d (pk inst) (username inst)
          then (Inl (IntegrityError ''UNIQUE constraint failed: api_user.username''), d)
          else
          (case pk inst of
             None \<Rightarrow>
               (let inst' = inst\<lparr>pk := Some (user_seq d)\<rparr>
                in (Inr inst', d\<lparr>users := users d @ [inst'], user_seq := Suc (user_seq d)\<rparr>))
           | Some i \<Rightarrow>
               (case get_user d i of
                  None \<Rightarrow> (Inr inst, d\<lparr>users := users d @ [inst]\<rparr>)
                | Some _ \<Rightarrow>
                    (Inr inst,
                     d\<lparr>users := map (\<lambda>r. if pk r = Some i then inst else r) (users d)\<rparr>))))"

definition User_save :: "string list option \<Rightarrow> user \<Rightarrow> db \<Rightarrow> (error + user) \<times> db" where
  "User_save update_fields self d =
     (let self' = (if username self \<noteq> [] then self\<lparr>username := lower (username self)\<rparr>
                   else self)
      in Model_save update_fields self' d)"

subsection \<open>The daily counter: \<^verbatim>\<open>User.reset_todays_protein\<close> and \<^verbatim>\<open>User.add_protein\<close>\<close>

definition reset_todays_protein :: "date \<Rightarrow> user \<Rightarrow> db \<Rightarrow> (error + user) \<times> db" where
  "reset_todays_protein today self d =
     (if protein_last_update self \<noteq> today
      then User_save (Some [''todays_protein'', ''protein_last_update''])
             (self\<lparr>todays_protein := 0, protein_last_update := today\<rparr>) d
      else (Inr self, d))"

definition add_protein :: "int \<Rightarrow> user \<Rightarrow> db \<Rightarrow> (error + user) \<times> db" where
  "add_protein protein_to_add self d =
     (if protein_to_add \<le> 0
        then (Inl (ValidationError (Message ''Protein amount must be greater than 0.'')), d)
      else if todays_protein self + protein_to_add > 500
        then (Inl (ValidationError (Message ''Todays protein cannot be greater than 500.'')), d)
      else User_save (Some [''todays_protein''])
             (self\<lparr>todays_protein := todays_protein self + protein_to_add\<rparr>) d)"

section \<open>Ownership (api/mixins.py)\<close>

text \<open>
  \<^verbatim>\<open>WorkoutAccessMixin.get_workout\<close>. The requester is given by the primary key of
  \<^verbatim>\<open>request.user\<close>: Django compares model instances by primary key.
\<close>

definition get_workout :: "nat \<Rightarrow> nat \<Rightarrow> db \<Rightarrow> error + workout" where
  "get_workout request_user workout_id d =
     (case find (\<lambda>w. w_pk w = workout_id) (workouts d) of
        None \<Rightarrow> Inl (NotFound ''Workout not found'')
      | Some workout \<Rightarrow>
          if w_owner workout \<noteq> request_user then Inl (NotFound ''Workout not found'')
          else Inr workout)"

text \<open>
  The framework's lookup of the generic views, \<^verbatim>\<open>get_object_or_404(queryset, pk=...)\<close>:
  the row of the queryset with that key, or the framework's own 404, whose message names
  the model of the queryset.
\<close>

definition get_object_or_404 :: "string \<Rightarrow> ('a \<Rightarrow> nat) \<Rightarrow> 'a list \<Rightarrow> nat \<Rightarrow> error + 'a" where
  "get_object_or_404 model_name key queryset i =
     (case find (\<lambda>r. key r = i) queryset of
        None \<Rightarrow> Inl (NotFound (''No '' @ model_name @ '' matches the given query.''))
      | Some r \<Rightarrow> Inr r)"

section \<open>Request data and field validation (api/serializers.py)\<close>

text \<open>
  A key of the request body, as the code sees it after Python's or the serializer field's
  type conversion (\<^verbatim>\<open>int(...)\<close>, \<^verbatim>\<open>str(...).strip()\<close>, \<^verbatim>\<open>Decimal(...)\<close>, which are
  not code of the repository): the key is missing (\<open>Absent\<close>), the conversion rejects the
  value with a message (\<open>Invalid\<close>), or it yields a value (\<open>Given\<close>).
\<close>

datatype 'a input = Absent | Invalid string | Given 'a

text \<open>
  \<^verbatim>\<open>Field.run_validation\<close> of the framework: a missing key is skipped on a partial update
  and when the field is not required, the conversion error is the field's error, and
  otherwise the validators of the field run on the converted value. The result is the
  messages of the field, or the entry of \<^verbatim>\<open>validated_data\<close> (none for a skipped key).
\<close>

definition run_validation ::
  "bool \<Rightarrow> bool \<Rightarrow> ('a \<Rightarrow> string list) \<Rightarrow> 'a input \<Rightarrow> string list + 'a option" where
  "run_validation partial required validators x =
     (case x of
        Absent \<Rightarrow>
          if partial then Inr None
          else if required then Inl [''This field is required.'']
          else Inr None
      | Invalid m \<Rightarrow> Inl [m]
      | Given v \<Rightarrow> (case validators v of [] \<Rightarrow> Inr (Some v) | ms \<Rightarrow> Inl ms))"

text \<open>
  The validators a \<^verbatim>\<open>ModelSerializer\<close> derives from the model's field declarations.
  \<^verbatim>\<open>CharField(max_length=n)\<close>: not blank, at most \<open>n\<close> characters, no NUL character.
  An integer field with \<^verbatim>\<open>MinValueValidator(lo)\<close> and \<^verbatim>\<open>MaxValueValidator(hi)\<close>.
\<close>

fun str_nat :: "nat \<Rightarrow> string" where
  "str_nat n =
     (if n < 10 then [char_of (48 + n)] else str_nat (n div 10) @ [char_of (48 + n mod 10)])"

declare str_nat.simps [simp del]

definition str_int :: "int \<Rightarrow> string" where
  "str_int i = (if i < 0 then CHR ''-'' # str_nat (nat (- i)) else str_nat (nat i))"

definition char_validators :: "nat \<Rightarrow> string \<Rightarrow> string list" where
  "char_validators max_length s =
     (if s = [] then [''This field may not be blank.'']
      else (if length s > max_length
            then [''Ensure this field has no more than '' @ str_nat max_length @ '' characters.'']
            else [])
         @ (if CHR 0x00 \<in> set s then [''Null characters are not allowed.''] else []))"

definition int_validators :: "int \<Rightarrow> int \<Rightarrow> int \<Rightarrow> string list" where
  "int_validators min_value max_value n =
     (if n > max_value
      then [''Ensure this value is less than or equal to '' @ str_int max_value @ ''.'']
      else [])
   @ (if n < min_value
      then [''Ensure this value is greater than or equal to '' @ str_int min_value @ ''.'']
      else [])"

subsection \<open>The weight field: \<^verbatim>\<open>DecimalField(max_digits=5, decimal_places=2)\<close>\<close>

text \<open>
  A finite \<^verbatim>\<open>Decimal\<close>, as \<^verbatim>\<open>as_tuple()\<close> shows it: sign (\<open>True\<close> for negative),
  coefficient and exponent; its digit tuple is the decimal numeral of the coefficient.
\<close>

record decimal =
  negative :: bool
  coefficient :: nat
  exponent :: int

fun ndigits :: "nat \<Rightarrow> nat" where
  "ndigits n = (if n < 10 then 1 else Suc (ndigits (n div 10)))"

declare ndigits.simps [simp del]

definition max_digits :: int where
  "max_digits = 5"

definition decimal_places :: int where
  "decimal_places = 2"

text \<open>The framework's \<^verbatim>\<open>DecimalField.validate_precision\<close>, with its three cases.\<close>

definition validate_precision :: "decimal \<Rightarrow> string list" where
  "validate_precision v =
     (let len = int (ndigits (coefficient v)); e = exponent v;
          total_digits = (if e \<ge> 0 then len + e else if len > \<bar>e\<bar> then len else \<bar>e\<bar>);
          whole_digits = (if e \<ge> 0 then len + e else if len > \<bar>e\<bar> then len - \<bar>e\<bar> else 0);
          places = (if e \<ge> 0 then 0 else \<bar>e\<bar>)
      in if total_digits > max_digits
           then [''Ensure that there are no more than 5 digits in total.'']
         else if places > decimal_places
           then [''Ensure that there are no more than 2 decimal places.'']
         else if whole_digits > max_digits - decimal_places
           then [''Ensure that there are no more than 3 digits before the decimal point.'']
         else [])"

text \<open>
  \<^verbatim>\<open>quantize\<close> to two places, as a number of hundredths; exact once the precision is
  validated, since then the exponent is at least \<open>-2\<close>.
\<close>

definition hundredths :: "decimal \<Rightarrow> int" where
  "hundredths v =
     (if negative v then - 1 else 1) * int (coefficient v) * 10 ^ nat (exponent v + decimal_places)"

text \<open>
  The weight field: precision, quantization, then \<^verbatim>\<open>MinValueValidator(Decimal('0.00'))\<close>.
  The model gives the column a default, so the field is not required.
\<close>

definition weight_field :: "decimal input \<Rightarrow> string list + int option" where
  "weight_field x =
     (case x of
        Absent \<Rightarrow> Inr None
      | Invalid m \<Rightarrow> Inl [m]
      | Given v \<Rightarrow>
          (case validate_precision v of
             [] \<Rightarrow>
               if hundredths v < 0
               then Inl [''Ensure this value is greater than or equal to 0.00.'']
               else Inr (Some (hundredths v))
           | ms \<Rightarrow> Inl ms))"

definition add_error ::
  "string \<Rightarrow> string list + 'a \<Rightarrow> (string \<Rightarrow> string list option) \<Rightarrow> (string \<Rightarrow> string list option)" where
  "add_error f r errs = (case r of Inl ms \<Rightarrow> errs(f \<mapsto> ms) | Inr _ \<Rightarrow> errs)"

subsection \<open>\<^verbatim>\<open>ExerciseSerializer\<close>\<close>

text \<open>
  The body of an exercise request, by the keys of \<^verbatim>\<open>Meta.fields\<close>. The serializer never
  reads \<^verbatim>\<open>id\<close>, which is read-only, nor any key that is not one of its fields.
\<close>

record exercise_data =
  d_name :: "string input"
  d_sets :: "int input"
  d_reps :: "int input"
  d_weight :: "decimal input"
  d_id :: "nat input"

text \<open>
  \<^verbatim>\<open>validated_data\<close> of the serializer: the writable fields of
  \<^verbatim>\<open>['id', 'name', 'sets', 'reps', 'weight']\<close> (the key is read-only) that were supplied
  and passed validation.
\<close>

record exercise_attrs =
  a_name :: "string option"
  a_sets :: "int option"
  a_reps :: "int option"
  a_weight :: "int option"

definition ExerciseSerializer_validate :: "bool \<Rightarrow> exercise_data \<Rightarrow> detail + exercise_attrs" where
  "ExerciseSerializer_validate partial data =
     (let n = run_validation partial True (char_validators 30) (d_name data);
          s = run_validation partial True (int_validators 1 99) (d_sets data);
          r = run_validation partial True (int_validators 1 99) (d_reps data);
          w = weight_field (d_weight data)
      in case (n, s, r, w) of
           (Inr n', Inr s', Inr r', Inr w') \<Rightarrow>
             Inr \<lparr>a_name = n', a_sets = s', a_reps = r', a_weight = w'\<rparr>
         | _ \<Rightarrow>
             Inl (PerField (add_error ''name'' n (add_error ''sets'' s
                    (add_error ''reps'' r (add_error ''weight'' w Map.empty))))))"

text \<open>\<^verbatim>\<open>set(validated_data)\<close>: the keys of the dictionary.\<close>

definition attr_keys :: "exercise_attrs \<Rightarrow> string set" where
  "attr_keys v =
     (if a_name v \<noteq> None then {''name''} else {})
   \<union> (if a_sets v \<noteq> None then {''sets''} else {})
   \<union> (if a_reps v \<noteq> None then {''reps''} else {})
   \<union> (if a_weight v \<noteq> None then {''weight''} else {})"

text \<open>\<^verbatim>\<open>Model.save\<close> of an exercise that has its key: update the row, or insert it.\<close>

definition Exercise_save :: "exercise \<Rightarrow> db \<Rightarrow> db" where
  "Exercise_save inst d =
     (case find (\<lambda>r. e_pk r = e_pk inst) (exercises d) of
        None \<Rightarrow> d\<lparr>exercises := exercises d @ [inst]\<rparr>
      | Some _ \<Rightarrow>
          d\<lparr>exercises := map (\<lambda>r. if e_pk r = e_pk inst then inst else r) (exercises d)\<rparr>)"

definition allowed :: "string set" where
  "allowed = {''weight'', ''reps''}"

definition ExerciseSerializer_update ::
  "exercise \<Rightarrow> exercise_attrs \<Rightarrow> db \<Rightarrow> (error + exercise) \<times> db" where
  "ExerciseSerializer_update instance validated_data d =
     (let forbidden = attr_keys validated_data - allowed
      in if forbidden \<noteq> {}
         then (Inl (ValidationError (PerField
                 (\<lambda>field. if field \<in> forbidden then Some [''This field cannot be updated.'']
                           else None))), d)
         else
           (let i1 = (case a_weight validated_data of
                        Some w \<Rightarrow> instance\<lparr>e_weight := w\<rparr> | None \<Rightarrow> instance);
                i2 = (case a_reps validated_data of
                        Some r \<Rightarrow> i1\<lparr>e_reps := r\<rparr> | None \<Rightarrow> i1)
            in (Inr i2, Exercise_save i2 d)))"

text \<open>
  \<^verbatim>\<open>ModelSerializer.create\<close> with the workout that \<^verbatim>\<open>perform_create\<close> passes:
  \<^verbatim>\<open>Exercise.objects.create(**validated_data, workout=...)\<close>. A column missing from
  \<^verbatim>\<open>validated_data\<close> takes the model's default: \<^verbatim>\<open>Decimal('0.00')\<close> for the weight, the
  empty string for the name, and none for \<^verbatim>\<open>sets\<close> and \<^verbatim>\<open>reps\<close>, which the store
  refuses.
\<close>

definition ExerciseSerializer_create ::
  "exercise_attrs \<Rightarrow> nat \<Rightarrow> db \<Rightarrow> (error + exercise) \<times> db" where
  "ExerciseSerializer_create validated_data workout_pk d =
     (case (a_sets validated_data, a_reps validated_data) of
        (Some s, Some r) \<Rightarrow>
          (let inst = \<lparr>e_pk = exercise_seq d,
                       e_name = (case a_name validated_data of None \<Rightarrow> [] | Some n \<Rightarrow> n),
                       e_sets = s, e_reps = r,
                       e_weight = (case a_weight validated_data of None \<Rightarrow> 0 | Some w \<Rightarrow> w),
                       e_workout = workout_pk\<rparr>
           in (Inr inst,
               d\<lparr>exercises := exercises d @ [inst], exercise_seq := Suc (exercise_seq d)\<rparr>))
      | _ \<Rightarrow> (Inl (DatabaseError ''NOT NULL constraint failed''), d))"

section \<open>Workout and exercise views (api/views.py)\<close>

text \<open>
  The generic views of the framework run in this order. Create: validate the body, then
  \<^verbatim>\<open>perform_create\<close>. Update and destroy: \<^verbatim>\<open>get_object\<close> (that is
  \<^verbatim>\<open>get_object_or_404\<close> on \<^verbatim>\<open>get_queryset()\<close>), then for an update validate the body
  and call the serializer's \<^verbatim>\<open>update\<close>. List: \<^verbatim>\<open>get_queryset\<close>.
\<close>

record workout_data =
  wd_name :: "string input"
  wd_owner :: "nat input"

definition WorkoutListCreateAPIView_get_queryset :: "nat \<Rightarrow> db \<Rightarrow> workout list" where
  "WorkoutListCreateAPIView_get_queryset request_user d =
     filter (\<lambda>w. w_owner w = request_user) (workouts d)"

definition WorkoutListCreateAPIView_list :: "nat \<Rightarrow> db \<Rightarrow> workout list" where
  "WorkoutListCreateAPIView_list request_user d =
     WorkoutListCreateAPIView_get_queryset request_user d"

text \<open>
  \<^verbatim>\<open>WorkoutSerializer\<close>: of \<^verbatim>\<open>['id', 'name', 'owner']\<close> only the name is read from the
  body, the key and the owner being read-only. \<^verbatim>\<open>perform_create\<close> saves with
  \<^verbatim>\<open>owner=self.request.user\<close>.
\<close>

definition WorkoutSerializer_validate :: "workout_data \<Rightarrow> detail + string" where
  "WorkoutSerializer_validate data =
     (case run_validation False True (char_validators 30) (wd_name data) of
        Inr (Some n) \<Rightarrow> Inr n
      | r \<Rightarrow> Inl (PerField (add_error ''name'' r Map.empty)))"

definition WorkoutListCreateAPIView_perform_create ::
  "nat \<Rightarrow> string \<Rightarrow> db \<Rightarrow> workout \<times> db" where
  "WorkoutListCreateAPIView_perform_create request_user name d =
     (let inst = \<lparr>w_pk = workout_seq d, w_name = name, w_owner = request_user\<rparr>
      in (inst, d\<lparr>workouts := workouts d @ [inst], workout_seq := Suc (workout_seq d)\<rparr>))"

definition WorkoutListCreateAPIView_create ::
  "nat \<Rightarrow> workout_data \<Rightarrow> db \<Rightarrow> (error + workout) \<times> db" where
  "WorkoutListCreateAPIView_create request_user data d =
     (case WorkoutSerializer_validate data of
        Inl errs \<Rightarrow> (Inl (ValidationError errs), d)
      | Inr name \<Rightarrow>
          (case WorkoutListCreateAPIView_perform_create request_user name d of
             (inst, d') \<Rightarrow> (Inr inst, d')))"

definition WorkoutDestroyAPIView_get_queryset :: "nat \<Rightarrow> db \<Rightarrow> workout list" where
  "WorkoutDestroyAPIView_get_queryset request_user d =
     filter (\<lambda>w. w_owner w = request_user) (workouts d)"

text \<open>Deleting a workout deletes its exercises (\<^verbatim>\<open>on_delete=models.CASCADE\<close>).\<close>

definition WorkoutDestroyAPIView_destroy :: "nat \<Rightarrow> nat \<Rightarrow> db \<Rightarrow> (error + unit) \<times> db" where
  "WorkoutDestroyAPIView_destroy request_user workout_id d =
     (case get_object_or_404 ''Workout'' w_pk (WorkoutDestroyAPIView_get_queryset request_user d)
             workout_id of
        Inl e \<Rightarrow> (Inl e, d)
      | Inr w \<Rightarrow>
          (Inr (),
           d\<lparr>workouts := filter (\<lambda>r. w_pk r \<noteq> w_pk w) (workouts d),
              exercises := filter (\<lambda>r. e_workout r \<noteq> w_pk w) (exercises d)\<rparr>))"

definition Exercise_get_queryset :: "nat \<Rightarrow> nat \<Rightarrow> db \<Rightarrow> error + exercise list" where
  "Exercise_get_queryset request_user workout_id d =
     (case get_workout request_user workout_id d of
        Inl e \<Rightarrow> Inl e
      | Inr w \<Rightarrow> Inr (filter (\<lambda>r. e_workout r = w_pk w) (exercises d)))"

definition ExerciseListCreateAPIView_list :: "nat \<Rightarrow> nat \<Rightarrow> db \<Rightarrow> error + exercise list" where
  "ExerciseListCreateAPIView_list request_user workout_id d =
     Exercise_get_queryset request_user workout_id d"

definition ExerciseListCreateAPIView_perform_create ::
  "nat \<Rightarrow> nat \<Rightarrow> exercise_attrs \<Rightarrow> db \<Rightarrow> (error + exercise) \<times> db" where
  "ExerciseListCreateAPIView_perform_create request_user workout_id validated_data d =
     (case get_workout request_user workout_id d of
        Inl e \<Rightarrow> (Inl e, d)
      | Inr w \<Rightarrow> ExerciseSerializer_create validated_data (w_pk w) d)"

definition ExerciseListCreateAPIView_create ::
  "nat \<Rightarrow> nat \<Rightarrow> exercise_data \<Rightarrow> db \<Rightarrow> (error + exercise) \<times> db" where
  "ExerciseListCreateAPIView_create request_user workout_id data d =
     (case ExerciseSerializer_validate False data of
        Inl errs \<Rightarrow> (Inl (ValidationError errs), d)
      | Inr validated_data \<Rightarrow>
          ExerciseListCreateAPIView_perform_create request_user workout_id validated_data d)"

definition Exercise_get_object :: "nat \<Rightarrow> nat \<Rightarrow> nat \<Rightarrow> db \<Rightarrow> error + exercise" where
  "Exercise_get_object request_user workout_id exercise_id d =
     (case Exercise_get_queryset request_user workout_id d of
        Inl e \<Rightarrow> Inl e
      | Inr queryset \<Rightarrow> get_object_or_404 ''Exercise'' e_pk queryset exercise_id)"

definition ExerciseRetrieveUpdateDestroyAPIView_partial_update ::
  "nat \<Rightarrow> nat \<Rightarrow> nat \<Rightarrow> exercise_data \<Rightarrow> db \<Rightarrow> (error + exercise) \<times> db" where
  "ExerciseRetrieveUpdateDestroyAPIView_partial_update request_user workout_id exercise_id data d =
     (case Exercise_get_object request_user workout_id exercise_id d of
        Inl e \<Rightarrow> (Inl e, d)
      | Inr instance \<Rightarrow>
          (case ExerciseSerializer_validate True data of
             Inl errs \<Rightarrow> (Inl (ValidationError errs), d)
           | Inr validated_data \<Rightarrow> ExerciseSerializer_update instance validated_data d))"

definition ExerciseRetrieveUpdateDestroyAPIView_destroy ::
  "nat \<Rightarrow> nat \<Rightarrow> nat \<Rightarrow> db \<Rightarrow> (error + unit) \<times> db" where
  "ExerciseRetrieveUpdateDestroyAPIView_destroy request_user workout_id exercise_id d =
     (case Exercise_get_object request_user workout_id exercise_id d of
        Inl e \<Rightarrow> (Inl e, d)
      | Inr instance \<Rightarrow>
          (Inr (), d\<lparr>exercises := filter (\<lambda>r. e_pk r \<noteq> e_pk instance) (exercises d)\<rparr>))"

section \<open>The protein resource (api/views.py, \<^verbatim>\<open>ProteinSerializer\<close>)\<close>

text \<open>
  The body of a PATCH. \<^verbatim>\<open>protein_to_add\<close> is read by the view itself:
  \<^verbatim>\<open>request.data.get('protein_to_add')\<close> is \<^verbatim>\<open>None\<close> (the key is missing or null), or a
  value that the view passes to Python's \<^verbatim>\<open>int\<close>. What \<^verbatim>\<open>int\<close> does with the value is
  the input of the model: it returns an integer, or raises \<^verbatim>\<open>ValueError\<close> (text that is
  no integer, a NaN), \<^verbatim>\<open>TypeError\<close> (a list, a dictionary) or \<^verbatim>\<open>OverflowError\<close> (an
  infinite float, which the JSON number \<^verbatim>\<open>1e999\<close> is parsed to). The other two keys are
  read by the serializer.
\<close>

datatype int_conversion =
    Converted int
  | Raises_ValueError
  | Raises_TypeError
  | Raises_OverflowError

record protein_data =
  pd_protein_to_add :: "int_conversion option"
  pd_protein_goal :: "int input"
  pd_todays_protein :: "int input"

record protein_repr =
  r_protein_goal :: int
  r_todays_protein :: int

definition ProteinSerializer_data :: "user \<Rightarrow> protein_repr" where
  "ProteinSerializer_data u =
     \<lparr>r_protein_goal = protein_goal u, r_todays_protein = todays_protein u\<rparr>"

text \<open>
  \<^verbatim>\<open>ProteinSerializer\<close> on a partial update: \<^verbatim>\<open>protein_goal\<close> is validated with the
  bounds of the model field, \<^verbatim>\<open>todays_protein\<close> is read-only and never read from the body.
\<close>

definition ProteinSerializer_validate :: "protein_data \<Rightarrow> detail + int option" where
  "ProteinSerializer_validate data =
     (case run_validation True True (int_validators 1 500) (pd_protein_goal data) of
        Inl ms \<Rightarrow> Inl (PerField (add_error ''protein_goal'' (Inl ms :: string list + int option) Map.empty))
      | Inr g \<Rightarrow> Inr g)"

text \<open>\<^verbatim>\<open>ModelSerializer.update\<close>: set the validated attributes, then \<^verbatim>\<open>instance.save()\<close>.\<close>

definition ProteinSerializer_update :: "user \<Rightarrow> int option \<Rightarrow> db \<Rightarrow> (error + user) \<times> db" where
  "ProteinSerializer_update instance validated_goal d =
     User_save None
       (case validated_goal of Some g \<Rightarrow> instance\<lparr>protein_goal := g\<rparr> | None \<Rightarrow> instance) d"

definition ProteinRetrieveUpdateAPIView_get_object ::
  "date \<Rightarrow> user \<Rightarrow> db \<Rightarrow> (error + user) \<times> db" where
  "ProteinRetrieveUpdateAPIView_get_object today request_user d =
     reset_todays_protein today request_user d"

definition ProteinRetrieveUpdateAPIView_retrieve ::
  "date \<Rightarrow> user \<Rightarrow> db \<Rightarrow> (error + protein_repr) \<times> db" where
  "ProteinRetrieveUpdateAPIView_retrieve today request_user d =
     (case ProteinRetrieveUpdateAPIView_get_object today request_user d of
        (Inl e, d1) \<Rightarrow> (Inl e, d1)
      | (Inr instance, d1) \<Rightarrow> (Inr (ProteinSerializer_data instance), d1))"

text \<open>
  \<^verbatim>\<open>UpdateModelMixin.update\<close> of the framework, which \<^verbatim>\<open>partial_update\<close> calls last:
  \<^verbatim>\<open>get_object\<close>, validation of the body, \<^verbatim>\<open>serializer.save()\<close>.
\<close>

definition ProteinRetrieveUpdateAPIView_update ::
  "date \<Rightarrow> protein_data \<Rightarrow> user \<Rightarrow> db \<Rightarrow> (error + protein_repr) \<times> db" where
  "ProteinRetrieveUpdateAPIView_update today data request_user d =
     (case ProteinRetrieveUpdateAPIView_get_object today request_user d of
        (Inl e, d1) \<Rightarrow> (Inl e, d1)
      | (Inr instance, d1) \<Rightarrow>
          (case ProteinSerializer_validate data of
             Inl errs \<Rightarrow> (Inl (ValidationError errs), d1)
           | Inr validated_goal \<Rightarrow>
               (case ProteinSerializer_update instance validated_goal d1 of
                  (Inl e, d2) \<Rightarrow> (Inl e, d2)
                | (Inr saved, d2) \<Rightarrow> (Inr (ProteinSerializer_data saved), d2))))"

text \<open>
  \<^verbatim>\<open>partial_update\<close>. The view catches \<^verbatim>\<open>ValueError\<close> and \<^verbatim>\<open>TypeError\<close> of the
  conversion and nothing else. A PATCH that adds protein calls \<^verbatim>\<open>get_object\<close> twice,
  here and in the framework's \<^verbatim>\<open>update\<close>, and each call reads \<^verbatim>\<open>date.today()\<close>:
  \<open>today\<close> is the first reading of the request and \<open>today_update\<close> the second, which a
  PATCH without \<^verbatim>\<open>protein_to_add\<close> never takes.
\<close>

definition ProteinRetrieveUpdateAPIView_partial_update ::
  "date \<Rightarrow> date \<Rightarrow> protein_data \<Rightarrow> user \<Rightarrow> db \<Rightarrow> (error + protein_repr) \<times> db" where
  "ProteinRetrieveUpdateAPIView_partial_update today today_update data request_user d =
     (case pd_protein_to_add data of
        None \<Rightarrow> ProteinRetrieveUpdateAPIView_update today data request_user d
      | Some Raises_ValueError \<Rightarrow>
          (Inl (ValidationError (Message ''Protein amount must be a valid number.'')), d)
      | Some Raises_TypeError \<Rightarrow>
          (Inl (ValidationError (Message ''Protein amount must be a valid number.'')), d)
      | Some Raises_OverflowError \<Rightarrow>
          (Inl (OverflowError ''cannot convert float infinity to integer''), d)
      | Some (Converted protein_to_add) \<Rightarrow>
          (case ProteinRetrieveUpdateAPIView_get_object today request_user d of
             (Inl e, d1) \<Rightarrow> (Inl e, d1)
           | (Inr u1, d1) \<Rightarrow>
               (case add_protein protein_to_add u1 d1 of
                  (Inl e, d2) \<Rightarrow> (Inl e, d2)
                | (Inr u2, d2) \<Rightarrow>
                    ProteinRetrieveUpdateAPIView_update today_update data u2 d2)))"

section \<open>Account creation (\<^verbatim>\<open>UserSerializer\<close>, \<^verbatim>\<open>CreateUserAPIView\<close>)\<close>

record user_data =
  ud_username :: "string input"
  ud_password :: "string input"

text \<open>
  The username field of Django's \<^verbatim>\<open>AbstractUser\<close>: the characters of \<^verbatim>\<open>[\w.@+-]\<close>, at
  most 150 of them, none of them NUL, and unique (an exact comparison). Python's \<^verbatim>\<open>\w\<close> is the underscore
  and every code point that Unicode counts as a letter or a number; below 256 these are
  the ASCII letters and digits, U+00AA, U+00B2, U+00B3, U+00B5, U+00B9, U+00BA, U+00BC to
  U+00BE, and U+00C0 to U+00FF other than the signs U+00D7 and U+00F7.
\<close>

definition username_char :: "char \<Rightarrow> bool" where
  "username_char c =
     (let n = (of_char c :: nat)
      in (48 \<le> n \<and> n \<le> 57) \<or> (65 \<le> n \<and> n \<le> 90) \<or> (97 \<le> n \<and> n \<le> 122)
         \<or> c \<in> set ''_.@+-''
         \<or> n = 170 \<or> n = 178 \<or> n = 179 \<or> n = 181 \<or> n = 185 \<or> n = 186
         \<or> (188 \<le> n \<and> n \<le> 190)
         \<or> (192 \<le> n \<and> n \<le> 214) \<or> (216 \<le> n \<and> n \<le> 246) \<or> (248 \<le> n \<and> n \<le> 255))"

definition username_validators :: "db \<Rightarrow> string \<Rightarrow> string list" where
  "username_validators d s =
     (if s = [] then [''This field may not be blank.'']
      else (if list_all username_char s then []
            else [''Enter a valid username. This value may contain only letters, numbers, and @/./+/-/_ characters.''])
         @ (if list_ex (\<lambda>r. username r = s) (users d)
            then [''A user with that username already exists.''] else [])
         @ (if length s > 150 then [''Ensure this field has no more than 150 characters.'']
            else [])
         @ (if CHR 0x00 \<in> set s then [''Null characters are not allowed.''] else []))"

text \<open>
  \<^verbatim>\<open>UserSerializer.validate_username\<close>: the lookup \<^verbatim>\<open>username__iexact\<close> is the store's
  comparison, the value returned is Python's \<^verbatim>\<open>value.lower()\<close>.
\<close>

definition validate_username :: "db \<Rightarrow> string \<Rightarrow> string list + string" where
  "validate_username d v =
     (if list_ex (\<lambda>r. iexact d (username r) v) (users d)
      then Inl [''A user with that username already exists.'']
      else Inr (lower v))"

definition UserSerializer_validate :: "db \<Rightarrow> user_data \<Rightarrow> detail + string \<times> string" where
  "UserSerializer_validate d data =
     (let u = (case run_validation False True (username_validators d) (ud_username data) of
                 Inr (Some v) \<Rightarrow>
                   (case validate_username d v of Inl ms \<Rightarrow> Inl ms | Inr v' \<Rightarrow> Inr (Some v'))
               | r \<Rightarrow> r);
          p = run_validation False True (char_validators 128) (ud_password data)
      in case (u, p) of
           (Inr (Some u'), Inr (Some p')) \<Rightarrow> Inr (u', p')
         | _ \<Rightarrow> Inl (PerField (add_error ''username'' u (add_error ''password'' p Map.empty))))"

text \<open>
  \<^verbatim>\<open>UserSerializer.create\<close>. Django's \<^verbatim>\<open>validate_password\<close> and \<^verbatim>\<open>make_password\<close> are
  parameters: the first gives the messages of the rejection (none when it accepts), the
  second the hash. The new instance has the defaults of the model's columns.
\<close>

definition UserSerializer_create ::
  "(string \<Rightarrow> user \<Rightarrow> string list) \<Rightarrow> (string \<Rightarrow> string) \<Rightarrow> date \<Rightarrow> string \<times> string \<Rightarrow> db
     \<Rightarrow> (error + user) \<times> db" where
  "UserSerializer_create validate_password make_password today validated_data d =
     (let password = snd validated_data;
          user = \<lparr>pk = None, username = fst validated_data, password = [],
                  protein_goal = 150, todays_protein = 0, protein_last_update = today\<rparr>
      in case validate_password password user of
           [] \<Rightarrow> User_save None (user\<lparr>password := make_password password\<rparr>) d
         | messages \<Rightarrow>
             (Inl (ValidationError (PerField [''password'' \<mapsto> messages])), d))"

text \<open>
  The response body is \<^verbatim>\<open>serializer.data\<close>: the fields of \<^verbatim>\<open>Meta.fields\<close> that are not
  write-only, each with the value of the saved instance.
\<close>

datatype json = JNull | JInt int | JStr string

definition UserSerializer_fields :: "string list" where
  "UserSerializer_fields = [''id'', ''username'', ''password'']"

definition UserSerializer_write_only :: "string list" where
  "UserSerializer_write_only = [''password'']"

definition user_attr :: "user \<Rightarrow> string \<Rightarrow> json" where
  "user_attr u f =
     (if f = ''id'' then (case pk u of None \<Rightarrow> JNull | Some i \<Rightarrow> JInt (int i))
      else if f = ''username'' then JStr (username u)
      else if f = ''password'' then JStr (password u)
      else JNull)"

definition UserSerializer_data :: "user \<Rightarrow> (string \<times> json) list" where
  "UserSerializer_data u =
     map (\<lambda>f. (f, user_attr u f))
       (filter (\<lambda>f. f \<notin> set UserSerializer_write_only) UserSerializer_fields)"

definition CreateUserAPIView_create ::
  "(string \<Rightarrow> user \<Rightarrow> string list) \<Rightarrow> (string \<Rightarrow> string) \<Rightarrow> date \<Rightarrow> user_data \<Rightarrow> db
     \<Rightarrow> (error + (string \<times> json) list) \<times> db" where
  "CreateUserAPIView_create validate_password make_password today data d =
     (case UserSerializer_validate d data of
        Inl errs \<Rightarrow> (Inl (ValidationError errs), d)
      | Inr validated_data \<Rightarrow>
          (case UserSerializer_create validate_password make_password today validated_data d of
             (Inl e, d') \<Rightarrow> (Inl e, d')
           | (Inr user, d') \<Rightarrow> (Inr (UserSerializer_data user), d')))"

section \<open>Concrete states\<close>

text \<open>
  The comparison of SQLite, the backend of a Django project that configures no other: its
  \<^verbatim>\<open>LIKE\<close>, by which \<^verbatim>\<open>username__iexact\<close> is answered, folds the letters A to Z and no
  other.
\<close>

definition ascii_lower_char :: "char \<Rightarrow> char" where
  "ascii_lower_char c =
     (let n = (of_char c :: nat) in if 65 \<le> n \<and> n \<le> 90 then char_of (n + 32) else c)"

definition sqlite_iexact :: "string \<Rightarrow> string \<Rightarrow> bool" where
  "sqlite_iexact stored v = (map ascii_lower_char stored = map ascii_lower_char v)"

text \<open>
  The state the repository's tests set up: two accounts, one workout each, one exercise in
  each workout. The first account has eaten 50 units on day 100.
\<close>

definition user1 :: user where
  "user1 = \<lparr>pk = Some 1, username = ''user1'', password = ''pbkdf2$1'', protein_goal = 150,
             todays_protein = 50, protein_last_update = 100\<rparr>"

definition user2 :: user where
  "user2 = \<lparr>pk = Some 2, username = ''user2'', password = ''pbkdf2$2'', protein_goal = 150,
             todays_protein = 0, protein_last_update = 100\<rparr>"

definition workout1 :: workout where
  "workout1 = \<lparr>w_pk = 1, w_name = ''workout1'', w_owner = 1\<rparr>"

definition workout2 :: workout where
  "workout2 = \<lparr>w_pk = 2, w_name = ''workout2'', w_owner = 2\<rparr>"

definition exercise1 :: exercise where
  "exercise1 = \<lparr>e_pk = 1, e_name = ''exercise1'', e_sets = 1, e_reps = 5, e_weight = 500,
                 e_workout = 1\<rparr>"

definition exercise2 :: exercise where
  "exercise2 = \<lparr>e_pk = 2, e_name = ''exercise2'', e_sets = 5, e_reps = 10, e_weight = 700,
                 e_workout = 2\<rparr>"

definition db0 :: db where
  "db0 = \<lparr>users = [user1, user2], workouts = [workout1, workout2],
           exercises = [exercise1, exercise2],
           user_seq = 3, workout_seq = 3, exercise_seq = 3, iexact = sqlite_iexact\<rparr>"

text \<open>
  A password validator and a hash function to run account creation on: the validator
  refuses passwords of fewer than 8 characters.
\<close>

definition minimum_length_validator :: "string \<Rightarrow> user \<Rightarrow> string list" where
  "minimum_length_validator p u =
     (if length p < 8 then [''This password is too short.''] else [])"

definition tagged_hash :: "string \<Rightarrow> string" where
  "tagged_hash p = ''hash$'' @ p"

section \<open>Saving an account\<close>

lemma pk_copy_field [simp]: "pk (copy_field f inst row) = pk row"
  by (simp add: copy_field_def)

lemma pk_copy_fields [simp]: "pk (copy_fields fs inst row) = pk row"
  by (induction fs arbitrary: row) simp_all

lemma find_map_keep:
  assumes "\<And>r. P (f r) = P r"
  shows "find P (map f xs) = map_option f (find P xs)"
  using assms by (induction xs) simp_all

lemma lower_Nil_iff [simp]: "lower s = [] \<longleftrightarrow> s = []"
  by (simp add: lower_def)

lemma User_save_fields:
  assumes "pk self = Some i" and "get_user d i = Some row" and "''username'' \<notin> set fs"
  shows "User_save (Some fs) self d =
           (Inr (self\<lparr>username := lower (username self)\<rparr>),
            d\<lparr>users := map (\<lambda>r. if pk r = Some i
                                 then copy_fields fs (self\<lparr>username := lower (username self)\<rparr>) r
                                 else r) (users d)\<rparr>)"
proof (cases "username self = []")
  case True
  then have eq: "self\<lparr>username := lower (username self)\<rparr> = self"
    by (simp add: lower_def)
  show ?thesis
    unfolding eq using True assms by (simp add: User_save_def Model_save_def)
next
  case False
  with assms show ?thesis
    by (simp add: User_save_def Model_save_def Let_def)
qed

lemma reset_new_day:
  assumes "pk self = Some i" and "get_user d i = Some row"
    and "protein_last_update self \<noteq> today"
  shows "reset_todays_protein today self d =
           (Inr (self\<lparr>username := lower (username self), todays_protein := 0,
                      protein_last_update := today\<rparr>),
            d\<lparr>users := map (\<lambda>r. if pk r = Some i
                                 then r\<lparr>todays_protein := 0, protein_last_update := today\<rparr>
                                 else r) (users d)\<rparr>)"
  using assms
  by (simp add: reset_todays_protein_def User_save_fields [where row = row] copy_field_def)


lemma get_user_pk: "get_user d i = Some row \<Longrightarrow> pk row = Some i"
  by (auto simp: get_user_def find_Some_iff)

lemma get_user_map:
  assumes "get_user d i = Some row" and "\<And>r. pk (g r) = pk r"
  shows "get_user (d\<lparr>users := map (\<lambda>r. if pk r = Some i then g r else r) (users d)\<rparr>) i
           = Some (g row)"
proof -
  have "find (\<lambda>r. pk r = Some i) (map (\<lambda>r. if pk r = Some i then g r else r) (users d))
          = map_option (\<lambda>r. if pk r = Some i then g r else r) (find (\<lambda>r. pk r = Some i) (users d))"
    by (rule find_map_keep) (simp add: assms(2))
  with assms(1) get_user_pk [OF assms(1)] show ?thesis
    by (simp add: get_user_def)
qed

lemma reset_same_day:
  "protein_last_update self = today \<Longrightarrow> reset_todays_protein today self d = (Inr self, d)"
  by (simp add: reset_todays_protein_def)

lemma reset_result_today:
  assumes "reset_todays_protein today self d = (Inr self1, d1)"
  shows "protein_last_update self1 = today"
proof (cases "protein_last_update self = today")
  case True
  with assms show ?thesis by (simp add: reset_todays_protein_def)
next
  case False
  with assms show ?thesis
    by (auto simp: reset_todays_protein_def User_save_def Model_save_def Let_def
             split: option.splits if_splits)
qed

section \<open>The daily counter\<close>

text \<open>
  Claim C4. For an account that has its row in the store: on a day other than
  \<open>protein_last_update\<close>, Reset sets \<open>todays_protein\<close> to 0 and \<open>protein_last_update\<close>
  to the current date, and writes these two columns of the account's row and nothing else
  (every other column of the row and every other row keep their stored values); on the day
  of \<open>protein_last_update\<close> it returns the account and the store as they are. Whenever a
  Reset has returned, a second Reset on the same day changes neither the account nor the
  store.
\<close>

theorem reset_todays_protein_spec:
  assumes "pk self = Some i" and "get_user d i = Some row"
  shows "(protein_last_update self \<noteq> today \<longrightarrow>
            reset_todays_protein today self d =
              (Inr (self\<lparr>username := lower (username self), todays_protein := 0,
                         protein_last_update := today\<rparr>),
               d\<lparr>users := map (\<lambda>r. if pk r = Some i
                                    then r\<lparr>todays_protein := 0, protein_last_update := today\<rparr>
                                    else r) (users d)\<rparr>)
          \<and> get_user (snd (reset_todays_protein today self d)) i =
              Some (row\<lparr>todays_protein := 0, protein_last_update := today\<rparr>))
       \<and> (protein_last_update self = today \<longrightarrow>
            reset_todays_protein today self d = (Inr self, d))
       \<and> (\<forall>self1 d1. reset_todays_protein today self d = (Inr self1, d1) \<longrightarrow>
            reset_todays_protein today self1 d1 = (Inr self1, d1))"
proof (intro conjI impI allI)
  assume new: "protein_last_update self \<noteq> today"
  show eq: "reset_todays_protein today self d =
              (Inr (self\<lparr>username := lower (username self), todays_protein := 0,
                         protein_last_update := today\<rparr>),
               d\<lparr>users := map (\<lambda>r. if pk r = Some i
                                    then r\<lparr>todays_protein := 0, protein_last_update := today\<rparr>
                                    else r) (users d)\<rparr>)"
    by (rule reset_new_day [OF assms new])
  show "get_user (snd (reset_todays_protein today self d)) i =
          Some (row\<lparr>todays_protein := 0, protein_last_update := today\<rparr>)"
    unfolding eq snd_conv by (rule get_user_map [OF assms(2)]) simp
next
  assume "protein_last_update self = today"
  then show "reset_todays_protein today self d = (Inr self, d)"
    by (rule reset_same_day)
next
  fix self1 d1
  assume "reset_todays_protein today self d = (Inr self1, d1)"
  then have "protein_last_update self1 = today"
    by (rule reset_result_today)
  then show "reset_todays_protein today self1 d1 = (Inr self1, d1)"
    by (rule reset_same_day)
qed

theorem reset_todays_protein_spec_witness:
  "pk user1 = Some 1 \<and> get_user db0 1 = Some user1 \<and> protein_last_update user1 \<noteq> 101
   \<and> reset_todays_protein 101 user1 db0 =
       (Inr (user1\<lparr>todays_protein := 0, protein_last_update := 101\<rparr>),
        db0\<lparr>users := [user1\<lparr>todays_protein := 0, protein_last_update := 101\<rparr>, user2]\<rparr>)
   \<and> reset_todays_protein 101 (user1\<lparr>todays_protein := 0, protein_last_update := 101\<rparr>)
        (db0\<lparr>users := [user1\<lparr>todays_protein := 0, protein_last_update := 101\<rparr>, user2]\<rparr>) =
       (Inr (user1\<lparr>todays_protein := 0, protein_last_update := 101\<rparr>),
        db0\<lparr>users := [user1\<lparr>todays_protein := 0, protein_last_update := 101\<rparr>, user2]\<rparr>)"
proof -
  have h1: "pk user1 = Some 1" by (simp add: user1_def)
  have h2: "get_user db0 1 = Some user1" by (simp add: get_user_def db0_def user1_def)
  have low: "lower ''user1'' = ''user1''" by code_simp
  have eq: "reset_todays_protein 101 user1 db0 =
       (Inr (user1\<lparr>todays_protein := 0, protein_last_update := 101\<rparr>),
        db0\<lparr>users := [user1\<lparr>todays_protein := 0, protein_last_update := 101\<rparr>, user2]\<rparr>)"
    using reset_todays_protein_spec [OF h1 h2, of 101]
    by (simp add: user1_def user2_def db0_def low)
  from reset_todays_protein_spec [OF h1 h2, of 101] eq h1 h2 show ?thesis
    by (simp add: user1_def)
qed

lemma add_protein_ok:
  assumes "0 < n" and "todays_protein self + n \<le> 500"
    and "pk self = Some i" and "get_user d i = Some row"
  shows "add_protein n self d =
           (Inr (self\<lparr>username := lower (username self),
                      todays_protein := todays_protein self + n\<rparr>),
            d\<lparr>users := map (\<lambda>r. if pk r = Some i
                                 then r\<lparr>todays_protein := todays_protein self + n\<rparr>
                                 else r) (users d)\<rparr>)"
  using assms
  by (simp add: add_protein_def User_save_fields [where row = row] copy_field_def)

text \<open>
  Claim C2. For every account, store and integer amount, Add raises a ValidationError and
  leaves the store as it is when the amount is at most 0, and when the amount is positive
  and \<open>todays_protein\<close> plus the amount exceeds 500. Otherwise, for an account that has
  its row in the store, it returns the account with \<open>todays_protein\<close> increased by exactly
  the amount and writes that value to the \<open>todays_protein\<close> column of the account's row,
  leaving every other column and row as stored. Where a positive amount brings the counter
  to exactly 500 (a case of the success above), one unit more is refused.
\<close>

theorem add_protein_spec:
  "(n \<le> 0 \<longrightarrow>
      add_protein n self d =
        (Inl (ValidationError (Message ''Protein amount must be greater than 0.'')), d))
   \<and> (0 < n \<and> todays_protein self + n > 500 \<longrightarrow>
      add_protein n self d =
        (Inl (ValidationError (Message ''Todays protein cannot be greater than 500.'')), d))
   \<and> (0 < n \<and> todays_protein self + n \<le> 500 \<and> pk self = Some i \<and> get_user d i = Some row \<longrightarrow>
      add_protein n self d =
        (Inr (self\<lparr>username := lower (username self),
                   todays_protein := todays_protein self + n\<rparr>),
         d\<lparr>users := map (\<lambda>r. if pk r = Some i
                              then r\<lparr>todays_protein := todays_protein self + n\<rparr>
                              else r) (users d)\<rparr>)
      \<and> get_user (snd (add_protein n self d)) i =
          Some (row\<lparr>todays_protein := todays_protein self + n\<rparr>))
   \<and> (0 < n \<and> todays_protein self + n = 500 \<longrightarrow>
      (\<exists>m. add_protein (n + 1) self d = (Inl (ValidationError m), d)))"
proof (intro conjI impI)
  assume "n \<le> 0"
  then show "add_protein n self d =
      (Inl (ValidationError (Message ''Protein amount must be greater than 0.'')), d)"
    by (simp add: add_protein_def)
next
  assume "0 < n \<and> todays_protein self + n > 500"
  then show "add_protein n self d =
      (Inl (ValidationError (Message ''Todays protein cannot be greater than 500.'')), d)"
    by (simp add: add_protein_def)
next
  assume h: "0 < n \<and> todays_protein self + n \<le> 500 \<and> pk self = Some i \<and> get_user d i = Some row"
  then show eq: "add_protein n self d =
        (Inr (self\<lparr>username := lower (username self),
                   todays_protein := todays_protein self + n\<rparr>),
         d\<lparr>users := map (\<lambda>r. if pk r = Some i
                              then r\<lparr>todays_protein := todays_protein self + n\<rparr>
                              else r) (users d)\<rparr>)"
    by (simp add: add_protein_ok)
  from h have row: "get_user d i = Some row" by simp
  show "get_user (snd (add_protein n self d)) i =
          Some (row\<lparr>todays_protein := todays_protein self + n\<rparr>)"
    unfolding eq snd_conv by (rule get_user_map [OF row]) simp
next
  assume "0 < n \<and> todays_protein self + n = 500"
  then show "\<exists>m. add_protein (n + 1) self d = (Inl (ValidationError m), d)"
    by (simp add: add_protein_def)
qed

theorem add_protein_spec_witness:
  "(0::int) < 450 \<and> todays_protein user1 + 450 \<le> 500 \<and> pk user1 = Some 1
   \<and> get_user db0 1 = Some user1
   \<and> add_protein 450 user1 db0 =
       (Inr (user1\<lparr>todays_protein := 500\<rparr>), db0\<lparr>users := [user1\<lparr>todays_protein := 500\<rparr>, user2]\<rparr>)
   \<and> add_protein 451 user1 db0 =
       (Inl (ValidationError (Message ''Todays protein cannot be greater than 500.'')), db0)
   \<and> add_protein 0 user1 db0 =
       (Inl (ValidationError (Message ''Protein amount must be greater than 0.'')), db0)"
proof -
  have h2: "get_user db0 1 = Some user1" by (simp add: get_user_def db0_def user1_def)
  have low: "lower ''user1'' = ''user1''" by code_simp
  show ?thesis
    using add_protein_spec [of 450 user1 db0 1 user1] add_protein_spec [of 451 user1 db0 1 user1]
      add_protein_spec [of 0 user1 db0 1 user1] h2
    by (simp add: user1_def user2_def db0_def low)
qed

section \<open>The protein resource\<close>

lemma User_save_full:
  assumes "pk self = Some i" and "get_user d i = Some row"
  shows "User_save None self d =
           (if username_taken d (Some i) (lower (username self))
            then (Inl (IntegrityError ''UNIQUE constraint failed: api_user.username''), d)
            else (Inr (self\<lparr>username := lower (username self)\<rparr>),
                  d\<lparr>users := map (\<lambda>r. if pk r = Some i
                                       then self\<lparr>username := lower (username self)\<rparr>
                                       else r) (users d)\<rparr>))"
proof (cases "username self = []")
  case True
  then have eq: "self\<lparr>username := lower (username self)\<rparr> = self"
    and low: "lower (username self) = username self"
    by (simp_all add: lower_def)
  show ?thesis
    unfolding eq low using True assms by (simp add: User_save_def Model_save_def)
next
  case False
  with assms show ?thesis
    by (simp add: User_save_def Model_save_def Let_def)
qed

lemma reset_returns:
  assumes "pk self = Some i" and "get_user d i = Some row"
  obtains u1 d1 where
    "reset_todays_protein today self d = (Inr u1, d1)"
    "pk u1 = Some i"
    "protein_last_update u1 = today"
    "todays_protein u1 = (if protein_last_update self = today then todays_protein self else 0)"
    "get_user d1 i = Some (if protein_last_update self = today then row
                           else row\<lparr>todays_protein := 0, protein_last_update := today\<rparr>)"
proof (cases "protein_last_update self = today")
  case True
  with assms reset_same_day [OF True, of d] show ?thesis
    by (intro that [of self d]) simp_all
next
  case False
  let ?u1 = "self\<lparr>username := lower (username self), todays_protein := 0,
                  protein_last_update := today\<rparr>"
  let ?d1 = "d\<lparr>users := map (\<lambda>r. if pk r = Some i
                                then r\<lparr>todays_protein := 0, protein_last_update := today\<rparr>
                                else r) (users d)\<rparr>"
  have eq: "reset_todays_protein today self d = (Inr ?u1, ?d1)"
    by (rule reset_new_day [OF assms False])
  have row: "get_user ?d1 i = Some (row\<lparr>todays_protein := 0, protein_last_update := today\<rparr>)"
    by (rule get_user_map [OF assms(2)]) simp
  show ?thesis
    using eq row False assms(1) by (intro that [of ?u1 ?d1]) simp_all
qed

lemma int_validators_Nil_iff: "int_validators lo hi n = [] \<longleftrightarrow> lo \<le> n \<and> n \<le> hi"
  by (auto simp: int_validators_def)

lemma run_validation_Given_bad:
  "validators v \<noteq> [] \<Longrightarrow> run_validation partial required validators (Given v) = Inl (validators v)"
  by (simp add: run_validation_def split: list.splits)

lemma run_validation_Given_ok:
  "validators v = [] \<Longrightarrow> run_validation partial required validators (Given v) = Inr (Some v)"
  by (simp add: run_validation_def)

lemma get_user_replace:
  assumes "get_user d i = Some row" and "pk inst = Some i"
  shows "get_user (d\<lparr>users := map (\<lambda>r. if pk r = Some i then inst else r) (users d)\<rparr>) i
           = Some inst"
proof -
  have "find (\<lambda>r. pk r = Some i) (map (\<lambda>r. if pk r = Some i then inst else r) (users d))
          = map_option (\<lambda>r. if pk r = Some i then inst else r) (find (\<lambda>r. pk r = Some i) (users d))"
    by (rule find_map_keep) (simp add: assms(2))
  with assms(1) get_user_pk [OF assms(1)] show ?thesis
    by (simp add: get_user_def)
qed

text \<open>
  The framework's \<open>update\<close> with a goal outside 1..500: its own Reset runs, on the day
  \<open>t\<close> it reads, and the validation fails before anything else is written.
\<close>

lemma update_bad_goal:
  assumes "pk u = Some i" and "get_user d i = Some row"
    and "pd_protein_goal data = Given g" and "g < 1 \<or> 500 < g"
  shows "ProteinRetrieveUpdateAPIView_update t data u d =
           (Inl (ValidationError (PerField [''protein_goal'' \<mapsto> int_validators 1 500 g])),
            snd (reset_todays_protein t u d))"
proof -
  obtain u1 d1 where r: "reset_todays_protein t u d = (Inr u1, d1)"
    by (rule reset_returns [OF assms(1,2)])
  from assms(4) have "int_validators 1 500 g \<noteq> []"
    by (auto simp: int_validators_Nil_iff)
  then have "ProteinSerializer_validate data =
               Inl (PerField [''protein_goal'' \<mapsto> int_validators 1 500 g])"
    by (simp add: ProteinSerializer_validate_def assms(3) run_validation_Given_bad add_error_def)
  then show ?thesis
    by (simp add: ProteinRetrieveUpdateAPIView_update_def
        ProteinRetrieveUpdateAPIView_get_object_def r)
qed

text \<open>
  The counter that the framework's \<open>update\<close> leaves in the store: the one it found when
  it reads the day of the last update, and 0 when it reads another day, whether the body
  is then accepted or not.
\<close>

lemma update_stored_counter:
  assumes "pk u = Some i" and "get_user d i = Some row"
    and "todays_protein row = todays_protein u"
  shows "map_option todays_protein
           (get_user (snd (ProteinRetrieveUpdateAPIView_update t data u d)) i)
         = Some (if protein_last_update u = t then todays_protein u else 0)"
proof -
  let ?c = "if protein_last_update u = t then todays_protein u else 0"
  let ?row1 = "if protein_last_update u = t then row
               else row\<lparr>todays_protein := 0, protein_last_update := t\<rparr>"
  obtain u1 d1 where r: "reset_todays_protein t u d = (Inr u1, d1)"
    and pk1: "pk u1 = Some i"
    and cnt1: "todays_protein u1 = ?c"
    and row1: "get_user d1 i = Some ?row1"
    by (rule reset_returns [OF assms(1,2)])
  have stored1: "map_option todays_protein (get_user d1 i) = Some ?c"
    using row1 assms(3) by simp
  show ?thesis
  proof (cases "ProteinSerializer_validate data")
    case (Inl errs)
    then show ?thesis
      using stored1
      by (simp add: ProteinRetrieveUpdateAPIView_update_def
          ProteinRetrieveUpdateAPIView_get_object_def r)
  next
    case (Inr g)
    let ?inst = "case g of Some v \<Rightarrow> u1\<lparr>protein_goal := v\<rparr> | None \<Rightarrow> u1"
    let ?saved = "?inst\<lparr>username := lower (username ?inst)\<rparr>"
    have pk: "pk ?inst = Some i"
      using pk1 by (simp split: option.splits)
    note s = User_save_full [OF pk row1]
    have t: "todays_protein ?saved = ?c"
      using cnt1 by (simp split: option.splits)
    show ?thesis
    proof (cases "username_taken d1 (Some i) (lower (username ?inst))")
      case True
      then show ?thesis
        using Inr stored1 s
        by (simp add: ProteinRetrieveUpdateAPIView_update_def
            ProteinRetrieveUpdateAPIView_get_object_def r ProteinSerializer_update_def)
    next
      case False
      have g: "get_user (d1\<lparr>users := map (\<lambda>r. if pk r = Some i then ?saved else r) (users d1)\<rparr>) i
                 = Some ?saved"
        by (rule get_user_replace [OF row1]) (simp add: pk)
      show ?thesis
        using Inr False s g t
        by (simp add: ProteinRetrieveUpdateAPIView_update_def
            ProteinRetrieveUpdateAPIView_get_object_def r ProteinSerializer_update_def)
    qed
  qed
qed

text \<open>
  A PATCH whose \<open>protein_to_add\<close> Add accepts: the store that Add leaves, with which the
  framework's \<open>update\<close> is then called on the second reading of the date.
\<close>

lemma partial_update_after_add:
  assumes "get_user d i = Some request_user"
    and "pd_protein_to_add data = Some (Converted n)"
    and "0 < n"
    and "(if protein_last_update request_user = today then todays_protein request_user else 0)
           + n \<le> 500"
  obtains u2 d2 where
    "ProteinRetrieveUpdateAPIView_partial_update today today_update data request_user d =
       ProteinRetrieveUpdateAPIView_update today_update data u2 d2"
    "pk u2 = Some i"
    "protein_last_update u2 = today"
    "todays_protein u2 =
       (if protein_last_update request_user = today then todays_protein request_user else 0) + n"
    "get_user d2 i =
       Some (request_user
              \<lparr>todays_protein :=
                 (if protein_last_update request_user = today
                  then todays_protein request_user else 0) + n,
               protein_last_update := today\<rparr>)"
proof -
  let ?base = "if protein_last_update request_user = today then todays_protein request_user else 0"
  let ?row1 = "if protein_last_update request_user = today then request_user
                 else request_user\<lparr>todays_protein := 0, protein_last_update := today\<rparr>"
  have pk: "pk request_user = Some i"
    by (rule get_user_pk [OF assms(1)])
  obtain u1 d1 where
    r: "reset_todays_protein today request_user d = (Inr u1, d1)"
    and pk1: "pk u1 = Some i"
    and day1: "protein_last_update u1 = today"
    and cnt1: "todays_protein u1 = ?base"
    and row1: "get_user d1 i = Some ?row1"
    by (rule reset_returns [OF pk assms(1)])
  let ?u2 = "u1\<lparr>username := lower (username u1), todays_protein := todays_protein u1 + n\<rparr>"
  let ?d2 = "d1\<lparr>users := map (\<lambda>r. if pk r = Some i
                                 then r\<lparr>todays_protein := todays_protein u1 + n\<rparr>
                                 else r) (users d1)\<rparr>"
  have a: "add_protein n u1 d1 = (Inr ?u2, ?d2)"
    using assms(3,4) cnt1 by (intro add_protein_ok [OF _ _ pk1 row1]) simp_all
  have row2: "get_user ?d2 i = Some (?row1\<lparr>todays_protein := todays_protein u1 + n\<rparr>)"
    by (rule get_user_map [OF row1]) simp
  have stored: "?row1\<lparr>todays_protein := todays_protein u1 + n\<rparr> =
                  request_user\<lparr>todays_protein := ?base + n, protein_last_update := today\<rparr>"
    using cnt1 by simp
  have res: "ProteinRetrieveUpdateAPIView_partial_update today today_update data request_user d =
               ProteinRetrieveUpdateAPIView_update today_update data ?u2 ?d2"
    by (simp add: ProteinRetrieveUpdateAPIView_partial_update_def assms(2)
        ProteinRetrieveUpdateAPIView_get_object_def r a)
  show ?thesis
    using res pk1 day1 cnt1 row2 stored by (intro that [of ?u2 ?d2]) simp_all
qed

text \<open>
  Claim C10, as the code has it. For an authenticated requester (the instance is the
  account's stored row), a PATCH whose \<open>protein_to_add\<close> is an integer that Add accepts
  against the post-reset counter and whose \<open>protein_goal\<close> is an integer outside 1..500
  fails with a ValidationError on \<open>protein_goal\<close>; the addition was written before the
  goal was validated and nothing undoes it. What the store holds afterwards depends on the
  second reading of the date, the one in the framework's \<open>update\<close>: on the same day as
  the first the counter is the increased one; on another day that \<open>update\<close>'s own Reset
  has set it to 0 and \<open>protein_last_update\<close> to that day.
\<close>

theorem partial_update_add_then_goal_rejected:
  assumes "get_user d i = Some request_user"
    and "pd_protein_to_add data = Some (Converted n)"
    and "0 < n"
    and "(if protein_last_update request_user = today then todays_protein request_user else 0)
           + n \<le> 500"
    and "pd_protein_goal data = Given g"
    and "g < 1 \<or> 500 < g"
  shows "fst (ProteinRetrieveUpdateAPIView_partial_update today today_update data request_user d) =
           Inl (ValidationError (PerField [''protein_goal'' \<mapsto> int_validators 1 500 g]))
       \<and> int_validators 1 500 g \<noteq> []
       \<and> get_user (snd (ProteinRetrieveUpdateAPIView_partial_update today today_update data
                          request_user d)) i =
           Some (if today_update = today
                 then request_user
                        \<lparr>todays_protein :=
                           (if protein_last_update request_user = today
                            then todays_protein request_user else 0) + n,
                         protein_last_update := today\<rparr>
                 else request_user\<lparr>todays_protein := 0, protein_last_update := today_update\<rparr>)"
proof -
  let ?base = "if protein_last_update request_user = today then todays_protein request_user else 0"
  let ?row2 = "request_user\<lparr>todays_protein := ?base + n, protein_last_update := today\<rparr>"
  obtain u2 d2 where
    res: "ProteinRetrieveUpdateAPIView_partial_update today today_update data request_user d =
            ProteinRetrieveUpdateAPIView_update today_update data u2 d2"
    and pk2: "pk u2 = Some i"
    and day2: "protein_last_update u2 = today"
    and row2: "get_user d2 i = Some ?row2"
    by (rule partial_update_after_add [OF assms(1-4)])
  obtain u3 d3 where
    r: "reset_todays_protein today_update u2 d2 = (Inr u3, d3)"
    and row3: "get_user d3 i =
          Some (if protein_last_update u2 = today_update then ?row2
                else ?row2\<lparr>todays_protein := 0, protein_last_update := today_update\<rparr>)"
    by (rule reset_returns [OF pk2 row2])
  have upd: "ProteinRetrieveUpdateAPIView_update today_update data u2 d2 =
           (Inl (ValidationError (PerField [''protein_goal'' \<mapsto> int_validators 1 500 g])), d3)"
    using update_bad_goal [OF pk2 row2 assms(5,6), of today_update] r by simp
  have bad: "int_validators 1 500 g \<noteq> []"
    using assms(6) by (auto simp: int_validators_Nil_iff)
  have stored: "get_user d3 i =
           Some (if today_update = today then ?row2
                 else request_user\<lparr>todays_protein := 0, protein_last_update := today_update\<rparr>)"
    using row3 day2 by auto
  show ?thesis
    unfolding res upd fst_conv snd_conv using bad stored by simp
qed

theorem partial_update_add_then_goal_rejected_witness:
  "ProteinRetrieveUpdateAPIView_partial_update 100 100
        \<lparr>pd_protein_to_add = Some (Converted 30), pd_protein_goal = Given 501,
         pd_todays_protein = Absent\<rparr>
        user1 db0 =
       (Inl (ValidationError (PerField
          [''protein_goal'' \<mapsto> [''Ensure this value is less than or equal to 500.'']])),
        db0\<lparr>users := [user1\<lparr>todays_protein := 80\<rparr>, user2]\<rparr>)
   \<and> get_user (snd (ProteinRetrieveUpdateAPIView_partial_update 100 100
        \<lparr>pd_protein_to_add = Some (Converted 30), pd_protein_goal = Given 501,
         pd_todays_protein = Absent\<rparr>
        user1 db0)) 1 = Some (user1\<lparr>todays_protein := 80\<rparr>)"
proof -
  have h: "get_user db0 1 = Some user1" by (simp add: get_user_def db0_def user1_def)
  have low: "lower ''user1'' = ''user1''" by code_simp
  have bad: "int_validators 1 500 501 = [''Ensure this value is less than or equal to 500.'']"
    by code_simp
  have ev: "ProteinRetrieveUpdateAPIView_partial_update 100 100
        \<lparr>pd_protein_to_add = Some (Converted 30), pd_protein_goal = Given 501,
         pd_todays_protein = Absent\<rparr>
        user1 db0 =
       (Inl (ValidationError (PerField
          [''protein_goal'' \<mapsto> [''Ensure this value is less than or equal to 500.'']])),
        db0\<lparr>users := [user1\<lparr>todays_protein := 80\<rparr>, user2]\<rparr>)"
    by (simp add: ProteinRetrieveUpdateAPIView_partial_update_def
        ProteinRetrieveUpdateAPIView_get_object_def ProteinRetrieveUpdateAPIView_update_def
        ProteinSerializer_validate_def run_validation_def bad add_error_def
        reset_todays_protein_def add_protein_def User_save_def Model_save_def get_user_def
        copy_field_def Let_def db0_def user1_def user2_def low)
  show ?thesis
    using partial_update_add_then_goal_rejected
      [of db0 1 user1 "\<lparr>pd_protein_to_add = Some (Converted 30), pd_protein_goal = Given 501,
         pd_todays_protein = Absent\<rparr>" 30 100 501 100] h ev
    by (simp add: user1_def)
qed

text \<open>
  The claim as written (the counter remains increased) fails when midnight lies between
  the two readings of the date: the account has 50 units on day 100, the view's Reset and
  Add run on day 100 and store 80, the framework's \<open>update\<close> reads day 101, and its Reset
  stores 0 before the goal 501 is refused.
\<close>

theorem partial_update_add_then_goal_rejected_counterexample:
  "ProteinRetrieveUpdateAPIView_partial_update 100 101
        \<lparr>pd_protein_to_add = Some (Converted 30), pd_protein_goal = Given 501,
         pd_todays_protein = Absent\<rparr>
        user1 db0 =
       (Inl (ValidationError (PerField
          [''protein_goal'' \<mapsto> [''Ensure this value is less than or equal to 500.'']])),
        db0\<lparr>users := [user1\<lparr>todays_protein := 0, protein_last_update := 101\<rparr>, user2]\<rparr>)
   \<and> get_user db0 1 = Some user1 \<and> todays_protein user1 = 50"
proof -
  have low: "lower ''user1'' = ''user1''" by code_simp
  have bad: "int_validators 1 500 501 = [''Ensure this value is less than or equal to 500.'']"
    by code_simp
  show ?thesis
    by (simp add: ProteinRetrieveUpdateAPIView_partial_update_def
        ProteinRetrieveUpdateAPIView_get_object_def ProteinRetrieveUpdateAPIView_update_def
        ProteinSerializer_validate_def run_validation_def bad add_error_def
        reset_todays_protein_def add_protein_def User_save_def Model_save_def get_user_def
        copy_field_def Let_def db0_def user1_def user2_def low)
qed

text \<open>
  Claim C3, as the code has it. For an authenticated requester (the instance is the
  account's stored row) and a PATCH that supplies \<open>protein_to_add\<close>: when Python's
  \<open>int\<close> cannot convert the value the request fails and the store is exactly as before,
  with a ValidationError when \<open>int\<close> raises ValueError or TypeError and with the uncaught
  OverflowError when it raises that. When the value converts, Reset runs first, on the
  first reading of the date, and Add is checked against the post-reset counter (the stored
  counter on the day of the last update, 0 on any other day): if the amount is at most 0
  or exceeds the cap from there, the PATCH fails with Add's ValidationError, neither the
  addition nor \<open>protein_goal\<close> is written, and the store is the one Reset alone leaves
  (the account's row unchanged on the day of the last update, and with
  \<open>todays_protein = 0\<close> and \<open>protein_last_update\<close> set to the current date otherwise); if
  the amount is positive and within the cap from the post-reset counter, Add stores the
  post-reset counter plus the amount, and that is the stored counter after the request
  unless the second reading of the date is another day, when it is 0.
\<close>

theorem partial_update_invalid_protein_to_add:
  assumes "get_user d i = Some request_user"
  shows "(pd_protein_to_add data = Some Raises_ValueError
            \<or> pd_protein_to_add data = Some Raises_TypeError \<longrightarrow>
            ProteinRetrieveUpdateAPIView_partial_update today today_update data request_user d =
              (Inl (ValidationError (Message ''Protein amount must be a valid number.'')), d))
       \<and> (pd_protein_to_add data = Some Raises_OverflowError \<longrightarrow>
            ProteinRetrieveUpdateAPIView_partial_update today today_update data request_user d =
              (Inl (OverflowError ''cannot convert float infinity to integer''), d))
       \<and> (\<forall>n. pd_protein_to_add data = Some (Converted n)
               \<and> (n \<le> 0 \<or> (if protein_last_update request_user = today
                              then todays_protein request_user else 0) + n > 500) \<longrightarrow>
            fst (ProteinRetrieveUpdateAPIView_partial_update today today_update data
                   request_user d) =
              Inl (ValidationError (Message
                (if n \<le> 0 then ''Protein amount must be greater than 0.''
                 else ''Todays protein cannot be greater than 500.'')))
          \<and> snd (ProteinRetrieveUpdateAPIView_partial_update today today_update data
                   request_user d) =
              snd (reset_todays_protein today request_user d)
          \<and> get_user (snd (ProteinRetrieveUpdateAPIView_partial_update today today_update data
                             request_user d)) i =
              Some (if protein_last_update request_user = today then request_user
                    else request_user\<lparr>todays_protein := 0, protein_last_update := today\<rparr>))
       \<and> (\<forall>n. pd_protein_to_add data = Some (Converted n) \<and> 0 < n
               \<and> (if protein_last_update request_user = today
                   then todays_protein request_user else 0) + n \<le> 500 \<longrightarrow>
            map_option todays_protein
              (get_user (snd (ProteinRetrieveUpdateAPIView_partial_update today today_update data
                                request_user d)) i)
            = Some (if today_update = today
                    then (if protein_last_update request_user = today
                          then todays_protein request_user else 0) + n
                    else 0))"
proof -
  let ?base = "if protein_last_update request_user = today then todays_protein request_user else 0"
  let ?row1 = "if protein_last_update request_user = today then request_user
                 else request_user\<lparr>todays_protein := 0, protein_last_update := today\<rparr>"
  let ?PU = "ProteinRetrieveUpdateAPIView_partial_update today today_update data request_user d"
  have pk: "pk request_user = Some i"
    by (rule get_user_pk [OF assms(1)])
  obtain u1 d1 where
    r: "reset_todays_protein today request_user d = (Inr u1, d1)"
    and cnt1: "todays_protein u1 = ?base"
    and row1: "get_user d1 i = Some ?row1"
    by (rule reset_returns [OF pk assms(1)])
  have c1: "pd_protein_to_add data = Some Raises_ValueError
            \<or> pd_protein_to_add data = Some Raises_TypeError \<longrightarrow>
            ?PU = (Inl (ValidationError (Message ''Protein amount must be a valid number.'')), d)"
    by (auto simp: ProteinRetrieveUpdateAPIView_partial_update_def)
  have c2: "pd_protein_to_add data = Some Raises_OverflowError \<longrightarrow>
            ?PU = (Inl (OverflowError ''cannot convert float infinity to integer''), d)"
    by (simp add: ProteinRetrieveUpdateAPIView_partial_update_def)
  have c3: "fst ?PU =
              Inl (ValidationError (Message
                (if n \<le> 0 then ''Protein amount must be greater than 0.''
                 else ''Todays protein cannot be greater than 500.'')))
          \<and> snd ?PU = snd (reset_todays_protein today request_user d)
          \<and> get_user (snd ?PU) i = Some ?row1"
    if "pd_protein_to_add data = Some (Converted n) \<and> (n \<le> 0 \<or> ?base + n > 500)" for n
  proof -
    from that cnt1 have "add_protein n u1 d1 =
        (Inl (ValidationError (Message
                (if n \<le> 0 then ''Protein amount must be greater than 0.''
                 else ''Todays protein cannot be greater than 500.''))), d1)"
      by (auto simp: add_protein_def)
    with that have "?PU =
        (Inl (ValidationError (Message
                (if n \<le> 0 then ''Protein amount must be greater than 0.''
                 else ''Todays protein cannot be greater than 500.''))), d1)"
      by (simp add: ProteinRetrieveUpdateAPIView_partial_update_def
          ProteinRetrieveUpdateAPIView_get_object_def r)
    then show ?thesis
      using r row1 by simp
  qed
  have c4: "map_option todays_protein (get_user (snd ?PU) i)
            = Some (if today_update = today then ?base + n else 0)"
    if h: "pd_protein_to_add data = Some (Converted n) \<and> 0 < n \<and> ?base + n \<le> 500" for n
  proof -
    from h have h1: "pd_protein_to_add data = Some (Converted n)" and h2: "0 < n"
      and h3: "?base + n \<le> 500"
      by simp_all
    obtain u2 d2 where
      res: "?PU = ProteinRetrieveUpdateAPIView_update today_update data u2 d2"
      and pk2: "pk u2 = Some i"
      and day2: "protein_last_update u2 = today"
      and cnt2: "todays_protein u2 = ?base + n"
      and row2: "get_user d2 i =
          Some (request_user\<lparr>todays_protein := ?base + n, protein_last_update := today\<rparr>)"
      by (rule partial_update_after_add [OF assms(1) h1 h2 h3])
    have "map_option todays_protein
            (get_user (snd (ProteinRetrieveUpdateAPIView_update today_update data u2 d2)) i)
          = Some (if protein_last_update u2 = today_update then todays_protein u2 else 0)"
      by (rule update_stored_counter [OF pk2 row2]) (simp add: cnt2)
    then show ?thesis
      unfolding res using day2 cnt2 by auto
  qed
  from c1 c2 c3 c4 show ?thesis
    by blast
qed

theorem partial_update_invalid_protein_to_add_witness:
  "ProteinRetrieveUpdateAPIView_partial_update 101 101
        \<lparr>pd_protein_to_add = Some (Converted 501), pd_protein_goal = Given 200,
         pd_todays_protein = Absent\<rparr>
        user1 db0 =
       (Inl (ValidationError (Message ''Todays protein cannot be greater than 500.'')),
        db0\<lparr>users := [user1\<lparr>todays_protein := 0, protein_last_update := 101\<rparr>, user2]\<rparr>)
   \<and> map_option todays_protein
        (get_user (snd (ProteinRetrieveUpdateAPIView_partial_update 101 101
          \<lparr>pd_protein_to_add = Some (Converted 460), pd_protein_goal = Absent,
           pd_todays_protein = Absent\<rparr>
          user1 db0)) 1) = Some 460
   \<and> ProteinRetrieveUpdateAPIView_partial_update 101 101
        \<lparr>pd_protein_to_add = Some Raises_OverflowError, pd_protein_goal = Given 200,
         pd_todays_protein = Absent\<rparr>
        user1 db0 =
       (Inl (OverflowError ''cannot convert float infinity to integer''), db0)
   \<and> ProteinRetrieveUpdateAPIView_partial_update 101 101
        \<lparr>pd_protein_to_add = Some Raises_ValueError, pd_protein_goal = Given 200,
         pd_todays_protein = Absent\<rparr>
        user1 db0 =
       (Inl (ValidationError (Message ''Protein amount must be a valid number.'')), db0)"
proof -
  have h: "get_user db0 1 = Some user1" by (simp add: get_user_def db0_def user1_def)
  have low: "lower ''user1'' = ''user1''" by code_simp
  have ev: "ProteinRetrieveUpdateAPIView_partial_update 101 101
        \<lparr>pd_protein_to_add = Some (Converted 501), pd_protein_goal = Given 200,
         pd_todays_protein = Absent\<rparr>
        user1 db0 =
       (Inl (ValidationError (Message ''Todays protein cannot be greater than 500.'')),
        db0\<lparr>users := [user1\<lparr>todays_protein := 0, protein_last_update := 101\<rparr>, user2]\<rparr>)"
    by (simp add: ProteinRetrieveUpdateAPIView_partial_update_def
        ProteinRetrieveUpdateAPIView_get_object_def
        reset_todays_protein_def add_protein_def User_save_def Model_save_def get_user_def
        copy_field_def Let_def db0_def user1_def user2_def low)
  show ?thesis
    using partial_update_invalid_protein_to_add [OF h,
        of "\<lparr>pd_protein_to_add = Some (Converted 460), pd_protein_goal = Absent,
            pd_todays_protein = Absent\<rparr>" 101 101]
      partial_update_invalid_protein_to_add [OF h,
        of "\<lparr>pd_protein_to_add = Some Raises_OverflowError, pd_protein_goal = Given 200,
            pd_todays_protein = Absent\<rparr>" 101 101]
      partial_update_invalid_protein_to_add [OF h,
        of "\<lparr>pd_protein_to_add = Some Raises_ValueError, pd_protein_goal = Given 200,
            pd_todays_protein = Absent\<rparr>" 101 101]
      h ev
    by (simp add: user1_def)
qed

text \<open>
  The claim as written (no field of the account is persisted) fails on a new day: the
  PATCH \<^verbatim>\<open>{"protein_to_add": 0}\<close> on day 101 for the account last updated on day 100
  with 50 units is refused, and the account's row is left with \<open>todays_protein = 0\<close> and
  \<open>protein_last_update = 101\<close>, which Reset wrote before Add refused the amount.
\<close>

theorem partial_update_invalid_add_counterexample:
  "ProteinRetrieveUpdateAPIView_partial_update 101 101
     \<lparr>pd_protein_to_add = Some (Converted 0), pd_protein_goal = Absent,
      pd_todays_protein = Absent\<rparr>
     user1 db0 =
     (Inl (ValidationError (Message ''Protein amount must be greater than 0.'')),
      db0\<lparr>users := [user1\<lparr>todays_protein := 0, protein_last_update := 101\<rparr>, user2]\<rparr>)
   \<and> get_user db0 1 = Some user1
   \<and> db0\<lparr>users := [user1\<lparr>todays_protein := 0, protein_last_update := 101\<rparr>, user2]\<rparr> \<noteq> db0"
proof -
  have low: "lower ''user1'' = ''user1''" by code_simp
  show ?thesis
    by (simp add: ProteinRetrieveUpdateAPIView_partial_update_def
        ProteinRetrieveUpdateAPIView_get_object_def
        reset_todays_protein_def add_protein_def User_save_def Model_save_def get_user_def
        copy_field_def Let_def db0_def user1_def user2_def low)
qed

section \<open>Updating an exercise\<close>






lemma weight_field_Inr:
  assumes "weight_field x = Inr y"
  shows "(x = Absent \<and> y = None)
       \<or> (\<exists>v. x = Given v \<and> y = Some (hundredths v) \<and> validate_precision v = []
              \<and> 0 \<le> hundredths v)"
  using assms
  by (cases x) (auto simp: weight_field_def split: list.splits if_splits)

lemma ExerciseSerializer_validate_Inr:
  assumes "ExerciseSerializer_validate partial data = Inr v"
  shows "run_validation partial True (char_validators 30) (d_name data) = Inr (a_name v)"
    and "run_validation partial True (int_validators 1 99) (d_sets data) = Inr (a_sets v)"
    and "run_validation partial True (int_validators 1 99) (d_reps data) = Inr (a_reps v)"
    and "weight_field (d_weight data) = Inr (a_weight v)"
  using assms
  by (auto simp: ExerciseSerializer_validate_def Let_def split: sum.splits)


lemma ExerciseSerializer_validate_id [simp]:
  "ExerciseSerializer_validate partial (data\<lparr>d_id := x\<rparr>) = ExerciseSerializer_validate partial data"
  by (simp add: ExerciseSerializer_validate_def)




section \<open>Ownership\<close>

lemma get_workout_not_owned:
  assumes "\<forall>w\<in>set (workouts d). w_pk w = workout_id \<longrightarrow> w_owner w \<noteq> request_user"
  shows "get_workout request_user workout_id d = Inl (NotFound ''Workout not found'')"
proof (cases "find (\<lambda>w. w_pk w = workout_id) (workouts d)")
  case None
  then show ?thesis by (simp add: get_workout_def)
next
  case (Some w)
  then have "w \<in> set (workouts d)" and "w_pk w = workout_id"
    by (auto simp: find_Some_iff)
  with assms have "w_owner w \<noteq> request_user" by blast
  with Some show ?thesis by (simp add: get_workout_def)
qed

lemma get_workout_owned:
  assumes "get_workout request_user workout_id d = Inr w"
  shows "w \<in> set (workouts d) \<and> w_pk w = workout_id \<and> w_owner w = request_user"
  using assms
  by (auto simp: get_workout_def find_Some_iff split: option.splits if_splits)

lemma destroy_not_owned:
  assumes "\<forall>w\<in>set (workouts d). w_pk w = workout_id \<longrightarrow> w_owner w \<noteq> request_user"
  shows "WorkoutDestroyAPIView_destroy request_user workout_id d = (Inl (NotFound ''No Workout matches the given query.''), d)"
proof -
  have "find (\<lambda>r. w_pk r = workout_id) (filter (\<lambda>w. w_owner w = request_user) (workouts d)) = None"
    using assms by (auto simp: find_None_iff)
  then show ?thesis
    by (simp add: WorkoutDestroyAPIView_destroy_def WorkoutDestroyAPIView_get_queryset_def
        get_object_or_404_def)
qed

lemma get_object_or_404_in:
  "get_object_or_404 model_name key qs i = Inr r \<Longrightarrow> r \<in> set qs \<and> key r = i"
  by (auto simp: get_object_or_404_def find_Some_iff split: option.splits)

lemma Exercise_get_object_owned:
  assumes "Exercise_get_object request_user workout_id exercise_id d = Inr inst"
  shows "(\<exists>w\<in>set (workouts d). w_pk w = workout_id \<and> w_owner w = request_user)
       \<and> e_workout inst = workout_id \<and> e_pk inst = exercise_id"
proof (cases "get_workout request_user workout_id d")
  case (Inl e)
  with assms show ?thesis
    by (simp add: Exercise_get_object_def Exercise_get_queryset_def)
next
  case (Inr w)
  with assms have "get_object_or_404 ''Exercise'' e_pk (filter (\<lambda>r. e_workout r = w_pk w) (exercises d))
      exercise_id = Inr inst"
    by (simp add: Exercise_get_object_def Exercise_get_queryset_def)
  then have "inst \<in> set (filter (\<lambda>r. e_workout r = w_pk w) (exercises d)) \<and> e_pk inst = exercise_id"
    by (rule get_object_or_404_in)
  with get_workout_owned [OF Inr] show ?thesis by auto
qed

lemma ExerciseSerializer_update_workout:
  "ExerciseSerializer_update inst v d = (Inr e, d') \<Longrightarrow> e_workout e = e_workout inst"
  by (auto simp: ExerciseSerializer_update_def Let_def split: if_splits option.splits)

lemma ExerciseSerializer_create_workout:
  "ExerciseSerializer_create v wpk d = (Inr e, d') \<Longrightarrow> e_workout e = wpk"
  by (auto simp: ExerciseSerializer_create_def Let_def split: option.splits)

text \<open>
  The paths on a workout that the requester does not own: there is no workout with the
  given key, or its owner is another user. Deleting the workout, listing its exercises,
  and updating or deleting an exercise beneath it resolve the workout first and answer
  NotFound, whatever the exercise key and the body. The create path validates the body
  first and resolves the workout in \<^verbatim>\<open>perform_create\<close>: it answers NotFound only for a
  body that passes validation. No path changes the store, and a path that returns
  exercises does so only for a workout with that key that the requester owns.
\<close>

lemma workout_access_paths:
  "((\<forall>w\<in>set (workouts d). w_pk w = workout_id \<longrightarrow> w_owner w \<noteq> request_user) \<longrightarrow>
       WorkoutDestroyAPIView_destroy request_user workout_id d = (Inl (NotFound ''No Workout matches the given query.''), d)
     \<and> ExerciseListCreateAPIView_list request_user workout_id d =
         Inl (NotFound ''Workout not found'')
     \<and> ExerciseListCreateAPIView_create request_user workout_id data d =
         (case ExerciseSerializer_validate False data of
            Inl errs \<Rightarrow> (Inl (ValidationError errs), d)
          | Inr validated_data \<Rightarrow> (Inl (NotFound ''Workout not found''), d))
     \<and> ExerciseRetrieveUpdateDestroyAPIView_partial_update request_user workout_id exercise_id
         data d = (Inl (NotFound ''Workout not found''), d)
     \<and> ExerciseRetrieveUpdateDestroyAPIView_destroy request_user workout_id exercise_id d =
         (Inl (NotFound ''Workout not found''), d))
   \<and> (\<forall>xs. ExerciseListCreateAPIView_list request_user workout_id d = Inr xs \<longrightarrow>
         (\<exists>w\<in>set (workouts d). w_pk w = workout_id \<and> w_owner w = request_user)
       \<and> (\<forall>x\<in>set xs. e_workout x = workout_id))
   \<and> (\<forall>x d'. ExerciseListCreateAPIView_create request_user workout_id data d = (Inr x, d') \<longrightarrow>
         (\<exists>w\<in>set (workouts d). w_pk w = workout_id \<and> w_owner w = request_user)
       \<and> e_workout x = workout_id)
   \<and> (\<forall>x d'. ExerciseRetrieveUpdateDestroyAPIView_partial_update request_user workout_id
                exercise_id data d = (Inr x, d') \<longrightarrow>
         (\<exists>w\<in>set (workouts d). w_pk w = workout_id \<and> w_owner w = request_user)
       \<and> e_workout x = workout_id)"
proof (intro conjI impI allI)
  assume h: "\<forall>w\<in>set (workouts d). w_pk w = workout_id \<longrightarrow> w_owner w \<noteq> request_user"
  note nf = get_workout_not_owned [OF h]
  show "WorkoutDestroyAPIView_destroy request_user workout_id d = (Inl (NotFound ''No Workout matches the given query.''), d)"
    by (rule destroy_not_owned [OF h])
  show "ExerciseListCreateAPIView_list request_user workout_id d =
         Inl (NotFound ''Workout not found'')"
    by (simp add: ExerciseListCreateAPIView_list_def Exercise_get_queryset_def nf)
  show "ExerciseListCreateAPIView_create request_user workout_id data d =
         (case ExerciseSerializer_validate False data of
            Inl errs \<Rightarrow> (Inl (ValidationError errs), d)
          | Inr validated_data \<Rightarrow> (Inl (NotFound ''Workout not found''), d))"
    by (simp add: ExerciseListCreateAPIView_create_def
        ExerciseListCreateAPIView_perform_create_def nf split: sum.splits)
  show "ExerciseRetrieveUpdateDestroyAPIView_partial_update request_user workout_id exercise_id
         data d = (Inl (NotFound ''Workout not found''), d)"
    by (simp add: ExerciseRetrieveUpdateDestroyAPIView_partial_update_def
        Exercise_get_object_def Exercise_get_queryset_def nf)
  show "ExerciseRetrieveUpdateDestroyAPIView_destroy request_user workout_id exercise_id d =
         (Inl (NotFound ''Workout not found''), d)"
    by (simp add: ExerciseRetrieveUpdateDestroyAPIView_destroy_def
        Exercise_get_object_def Exercise_get_queryset_def nf)
next
  fix xs
  assume l: "ExerciseListCreateAPIView_list request_user workout_id d = Inr xs"
  then obtain w where w: "get_workout request_user workout_id d = Inr w"
    and xs: "xs = filter (\<lambda>r. e_workout r = w_pk w) (exercises d)"
    by (auto simp: ExerciseListCreateAPIView_list_def Exercise_get_queryset_def split: sum.splits)
  from get_workout_owned [OF w]
  show "\<exists>w\<in>set (workouts d). w_pk w = workout_id \<and> w_owner w = request_user"
    by blast
  from get_workout_owned [OF w] xs show "\<forall>x\<in>set xs. e_workout x = workout_id"
    by simp
next
  fix x d'
  assume c: "ExerciseListCreateAPIView_create request_user workout_id data d = (Inr x, d')"
  then obtain v w where w: "get_workout request_user workout_id d = Inr w"
    and s: "ExerciseSerializer_create v (w_pk w) d = (Inr x, d')"
    by (auto simp: ExerciseListCreateAPIView_create_def
        ExerciseListCreateAPIView_perform_create_def split: sum.splits)
  from get_workout_owned [OF w]
  show "\<exists>w\<in>set (workouts d). w_pk w = workout_id \<and> w_owner w = request_user"
    by blast
  from get_workout_owned [OF w] ExerciseSerializer_create_workout [OF s]
  show "e_workout x = workout_id"
    by simp
next
  fix x d'
  assume u: "ExerciseRetrieveUpdateDestroyAPIView_partial_update request_user workout_id
                exercise_id data d = (Inr x, d')"
  then obtain inst v where g: "Exercise_get_object request_user workout_id exercise_id d = Inr inst"
    and s: "ExerciseSerializer_update inst v d = (Inr x, d')"
    by (auto simp: ExerciseRetrieveUpdateDestroyAPIView_partial_update_def split: sum.splits)
  from Exercise_get_object_owned [OF g]
  show "\<exists>w\<in>set (workouts d). w_pk w = workout_id \<and> w_owner w = request_user"
    by blast
  from Exercise_get_object_owned [OF g] ExerciseSerializer_update_workout [OF s]
  show "e_workout x = workout_id"
    by simp
qed

text \<open>
  Claim C1. Every operation on a workout that the requester does not own must fail with
  NotFound. The code breaks this on one path: the first account posts an exercise with a
  blank name to the workout of the second account and is answered with the
  ValidationError of the name, because \<^verbatim>\<open>ExerciseListCreateAPIView\<close> reaches
  \<^verbatim>\<open>get_workout\<close> only in \<^verbatim>\<open>perform_create\<close>, after the body is validated. The list,
  update and delete paths on the same workout answer NotFound, as the docstring of
  \<^verbatim>\<open>WorkoutAccessMixin\<close> says.
\<close>

theorem create_exercise_validates_before_ownership:
  "get_workout 1 2 db0 = Inl (NotFound ''Workout not found'')
   \<and> ExerciseListCreateAPIView_create 1 2
       \<lparr>d_name = Given [], d_sets = Given 5, d_reps = Given 8, d_weight = Absent,
        d_id = Absent\<rparr> db0 =
       (Inl (ValidationError (PerField [''name'' \<mapsto> [''This field may not be blank.'']])), db0)
   \<and> ExerciseListCreateAPIView_list 1 2 db0 = Inl (NotFound ''Workout not found'')
   \<and> ExerciseRetrieveUpdateDestroyAPIView_partial_update 1 2 2
       \<lparr>d_name = Given [], d_sets = Given 5, d_reps = Given 8, d_weight = Absent,
        d_id = Absent\<rparr> db0 = (Inl (NotFound ''Workout not found''), db0)
   \<and> ExerciseRetrieveUpdateDestroyAPIView_destroy 1 2 2 db0 =
       (Inl (NotFound ''Workout not found''), db0)
   \<and> WorkoutDestroyAPIView_destroy 1 2 db0 =
       (Inl (NotFound ''No Workout matches the given query.''), db0)"
proof -
  have g: "get_workout 1 2 db0 = Inl (NotFound ''Workout not found'')"
    by (simp add: get_workout_def db0_def workout1_def workout2_def)
  have c: "ExerciseListCreateAPIView_create 1 2
       \<lparr>d_name = Given [], d_sets = Given 5, d_reps = Given 8, d_weight = Absent,
        d_id = Absent\<rparr> db0 =
       (Inl (ValidationError (PerField [''name'' \<mapsto> [''This field may not be blank.'']])), db0)"
    by (simp add: ExerciseListCreateAPIView_create_def
        ExerciseSerializer_validate_def run_validation_def char_validators_def
        int_validators_def weight_field_def add_error_def)
  have l: "ExerciseListCreateAPIView_list 1 2 db0 = Inl (NotFound ''Workout not found'')"
    unfolding ExerciseListCreateAPIView_list_def Exercise_get_queryset_def g by simp
  have u: "ExerciseRetrieveUpdateDestroyAPIView_partial_update 1 2 2
       \<lparr>d_name = Given [], d_sets = Given 5, d_reps = Given 8, d_weight = Absent,
        d_id = Absent\<rparr> db0 = (Inl (NotFound ''Workout not found''), db0)"
    unfolding ExerciseRetrieveUpdateDestroyAPIView_partial_update_def Exercise_get_object_def
      Exercise_get_queryset_def g by simp
  have x: "ExerciseRetrieveUpdateDestroyAPIView_destroy 1 2 2 db0 =
       (Inl (NotFound ''Workout not found''), db0)"
    unfolding ExerciseRetrieveUpdateDestroyAPIView_destroy_def Exercise_get_object_def
      Exercise_get_queryset_def g by simp
  have w: "WorkoutDestroyAPIView_destroy 1 2 db0 =
       (Inl (NotFound ''No Workout matches the given query.''), db0)"
    by (simp add: WorkoutDestroyAPIView_destroy_def WorkoutDestroyAPIView_get_queryset_def
        get_object_or_404_def db0_def workout1_def workout2_def)
  from g c l u x w show ?thesis
    by blast
qed

section \<open>Creating an exercise\<close>

lemma ndigits_bound: "n < 10 ^ ndigits n"
proof (induction n rule: ndigits.induct)
  case (1 n)
  show ?case
  proof (cases "n < 10")
    case True
    then show ?thesis by (simp add: ndigits.simps [of n])
  next
    case False
    with 1 have "n div 10 < 10 ^ ndigits (n div 10)" by simp
    then have "n < 10 * 10 ^ ndigits (n div 10)" by simp
    with False show ?thesis by (simp add: ndigits.simps [of n])
  qed
qed

lemma validate_precision_bounds:
  assumes "validate_precision v = []"
  shows "- 2 \<le> exponent v" and "int (ndigits (coefficient v)) + exponent v \<le> 3"
  using assms
  by (auto simp: validate_precision_def Let_def max_digits_def decimal_places_def
           split: if_splits)

lemma hundredths_upper:
  assumes "validate_precision v = []"
  shows "hundredths v \<le> 99999"
proof -
  let ?c = "coefficient v" and ?k = "nat (exponent v + 2)"
  from validate_precision_bounds [OF assms] have k: "ndigits ?c + ?k \<le> 5"
    by linarith
  have "?c * 10 ^ ?k < 10 ^ ndigits ?c * 10 ^ ?k"
    using ndigits_bound [of ?c] by simp
  also have "\<dots> = 10 ^ (ndigits ?c + ?k)"
    by (simp add: power_add)
  also have "\<dots> \<le> (10::nat) ^ 5"
    using k by (intro power_increasing) simp_all
  finally have "?c * 10 ^ ?k < 100000"
    by simp
  then have "int (?c * 10 ^ ?k) < 100000"
    by linarith
  define x where "x = int ?c * 10 ^ ?k"
  have "x \<le> 99999"
    using \<open>int (?c * 10 ^ ?k) < 100000\<close> by (simp add: x_def)
  moreover have "0 \<le> x"
    by (simp add: x_def)
  moreover have "hundredths v = (if negative v then - x else x)"
    by (simp add: hundredths_def decimal_places_def x_def)
  ultimately show ?thesis
    by simp
qed

lemma char_validators_Nil_iff:
  "char_validators m s = [] \<longleftrightarrow> s \<noteq> [] \<and> length s \<le> m \<and> CHR 0x00 \<notin> set s"
  by (auto simp: char_validators_def)

lemma run_validation_required_Inr:
  assumes "run_validation False True validators x = Inr y"
  shows "\<exists>v. x = Given v \<and> y = Some v \<and> validators v = []"
  using assms
  by (cases x) (auto simp: run_validation_def split: list.splits)

lemma create_failure_keeps_store:
  assumes "ExerciseListCreateAPIView_create request_user workout_id data d = (Inl e, d')"
  shows "d' = d"
  using assms
  by (auto simp: ExerciseListCreateAPIView_create_def
      ExerciseListCreateAPIView_perform_create_def ExerciseSerializer_create_def Let_def
      split: sum.splits option.splits)

text \<open>
  Claim C7. Whenever a create request stores an exercise, its name is the supplied name
  and has 1 to 30 characters, its sets and reps are the supplied integers and lie in
  1..99, and its weight is the supplied decimal, which has at most 2 fractional digits
  (exponent at least -2) and lies between 0.00 and 999.99 (0 and 99999 hundredths); when
  the weight is omitted the stored weight is exactly 0.00. The exercise is appended to the
  table, and a request that violates a constraint is refused with the store unchanged.
\<close>

theorem exercise_create_constraints:
  "(\<forall>x d'. ExerciseListCreateAPIView_create request_user workout_id data d = (Inr x, d') \<longrightarrow>
       d_name data = Given (e_name x) \<and> 1 \<le> length (e_name x) \<and> length (e_name x) \<le> 30
     \<and> d_sets data = Given (e_sets x) \<and> 1 \<le> e_sets x \<and> e_sets x \<le> 99
     \<and> d_reps data = Given (e_reps x) \<and> 1 \<le> e_reps x \<and> e_reps x \<le> 99
     \<and> 0 \<le> e_weight x \<and> e_weight x \<le> 99999
     \<and> (d_weight data = Absent \<longrightarrow> e_weight x = 0)
     \<and> (\<forall>v. d_weight data = Given v \<longrightarrow> e_weight x = hundredths v \<and> - 2 \<le> exponent v)
     \<and> (\<forall>m. d_weight data \<noteq> Invalid m)
     \<and> exercises d' = exercises d @ [x])
   \<and> (\<forall>e d'. ExerciseListCreateAPIView_create request_user workout_id data d = (Inl e, d') \<longrightarrow>
       d' = d)"
proof (intro conjI allI impI)
  fix x d'
  assume c: "ExerciseListCreateAPIView_create request_user workout_id data d = (Inr x, d')"
  then obtain v and w :: workout where v: "ExerciseSerializer_validate False data = Inr v"
    and s: "ExerciseSerializer_create v (w_pk w) d = (Inr x, d')"
    by (auto simp: ExerciseListCreateAPIView_create_def
        ExerciseListCreateAPIView_perform_create_def split: sum.splits)
  from run_validation_required_Inr [OF ExerciseSerializer_validate_Inr(1) [OF v]]
  obtain n where n: "d_name data = Given n" "a_name v = Some n" "char_validators 30 n = []"
    by blast
  from run_validation_required_Inr [OF ExerciseSerializer_validate_Inr(2) [OF v]]
  obtain st where st: "d_sets data = Given st" "a_sets v = Some st" "int_validators 1 99 st = []"
    by blast
  from run_validation_required_Inr [OF ExerciseSerializer_validate_Inr(3) [OF v]]
  obtain rp where rp: "d_reps data = Given rp" "a_reps v = Some rp" "int_validators 1 99 rp = []"
    by blast
  note wt = weight_field_Inr [OF ExerciseSerializer_validate_Inr(4) [OF v]]
  from s n st rp have x: "e_name x = n" "e_sets x = st" "e_reps x = rp"
    "e_weight x = (case a_weight v of None \<Rightarrow> 0 | Some w \<Rightarrow> w)"
    "d' = d\<lparr>exercises := exercises d @ [x], exercise_seq := Suc (exercise_seq d)\<rparr>"
    by (auto simp: ExerciseSerializer_create_def Let_def)
  show "d_name data = Given (e_name x)" using n x by simp
  show "1 \<le> length (e_name x)" using n x by (cases n) (simp_all add: char_validators_Nil_iff)
  show "length (e_name x) \<le> 30" using n x by (simp add: char_validators_Nil_iff)
  show "d_sets data = Given (e_sets x)" using st x by simp
  show "1 \<le> e_sets x" using st x by (simp add: int_validators_Nil_iff)
  show "e_sets x \<le> 99" using st x by (simp add: int_validators_Nil_iff)
  show "d_reps data = Given (e_reps x)" using rp x by simp
  show "1 \<le> e_reps x" using rp x by (simp add: int_validators_Nil_iff)
  show "e_reps x \<le> 99" using rp x by (simp add: int_validators_Nil_iff)
  show "0 \<le> e_weight x" using wt x(4) by auto
  show "e_weight x \<le> 99999" using wt x(4) hundredths_upper by auto
  show "e_weight x = 0" if "d_weight data = Absent" using wt x(4) that by auto
  show "e_weight x = hundredths u" if "d_weight data = Given u" for u
    using wt x(4) that by auto
  show "- 2 \<le> exponent u" if "d_weight data = Given u" for u
    using wt that validate_precision_bounds(1) by auto
  show "d_weight data \<noteq> Invalid m" for m using wt by auto
  show "exercises d' = exercises d @ [x]" using x(5) by simp
next
  fix e d'
  assume "ExerciseListCreateAPIView_create request_user workout_id data d = (Inl e, d')"
  then show "d' = d" by (rule create_failure_keeps_store)
qed

theorem exercise_create_constraints_witness:
  "ExerciseListCreateAPIView_create 1 1
     \<lparr>d_name = Given ''Test Exercise'', d_sets = Given 1, d_reps = Given 5, d_weight = Absent, d_id = Absent\<rparr> db0 =
     (Inr \<lparr>e_pk = 3, e_name = ''Test Exercise'', e_sets = 1, e_reps = 5, e_weight = 0,
           e_workout = 1\<rparr>,
      db0\<lparr>exercises := [exercise1, exercise2,
             \<lparr>e_pk = 3, e_name = ''Test Exercise'', e_sets = 1, e_reps = 5, e_weight = 0,
              e_workout = 1\<rparr>],
           exercise_seq := 4\<rparr>)
   \<and> fst (ExerciseListCreateAPIView_create 1 1
       \<lparr>d_name = Given ''Test Exercise'', d_sets = Given 99, d_reps = Given 99,
        d_weight = Given \<lparr>negative = False, coefficient = 99999, exponent = - 2\<rparr>,
        d_id = Absent\<rparr> db0) =
      Inr \<lparr>e_pk = 3, e_name = ''Test Exercise'', e_sets = 99, e_reps = 99, e_weight = 99999,
           e_workout = 1\<rparr>
   \<and> ExerciseListCreateAPIView_create 1 1
       \<lparr>d_name = Given ''Test Exercise'', d_sets = Given 100, d_reps = Given 5,
        d_weight = Absent, d_id = Absent\<rparr> db0 =
      (Inl (ValidationError (PerField [''sets'' \<mapsto> int_validators 1 99 100])), db0)
   \<and> ExerciseListCreateAPIView_create 1 1
       \<lparr>d_name = Given ''Test Exercise'', d_sets = Given 5, d_reps = Given 5,
        d_weight = Given \<lparr>negative = False, coefficient = 1000, exponent = 0\<rparr>,
        d_id = Absent\<rparr> db0 =
      (Inl (ValidationError (PerField
         [''weight'' \<mapsto> [''Ensure that there are no more than 3 digits before the decimal point.'']])), db0)"
proof -
  have nd: "ndigits 99999 = 5" "ndigits 1000 = 4"
    by (simp_all add: ndigits.simps)
  have bad: "int_validators 1 99 100 \<noteq> []"
    by (simp add: int_validators_def)
  have ev: "ExerciseListCreateAPIView_create 1 1
     \<lparr>d_name = Given ''Test Exercise'', d_sets = Given 1, d_reps = Given 5, d_weight = Absent, d_id = Absent\<rparr> db0 =
     (Inr \<lparr>e_pk = 3, e_name = ''Test Exercise'', e_sets = 1, e_reps = 5, e_weight = 0,
           e_workout = 1\<rparr>,
      db0\<lparr>exercises := [exercise1, exercise2,
             \<lparr>e_pk = 3, e_name = ''Test Exercise'', e_sets = 1, e_reps = 5, e_weight = 0,
              e_workout = 1\<rparr>],
           exercise_seq := 4\<rparr>)"
    "fst (ExerciseListCreateAPIView_create 1 1
       \<lparr>d_name = Given ''Test Exercise'', d_sets = Given 99, d_reps = Given 99,
        d_weight = Given \<lparr>negative = False, coefficient = 99999, exponent = - 2\<rparr>,
        d_id = Absent\<rparr> db0) =
      Inr \<lparr>e_pk = 3, e_name = ''Test Exercise'', e_sets = 99, e_reps = 99, e_weight = 99999,
           e_workout = 1\<rparr>"
    "ExerciseListCreateAPIView_create 1 1
       \<lparr>d_name = Given ''Test Exercise'', d_sets = Given 5, d_reps = Given 5,
        d_weight = Given \<lparr>negative = False, coefficient = 1000, exponent = 0\<rparr>,
        d_id = Absent\<rparr> db0 =
      (Inl (ValidationError (PerField
         [''weight'' \<mapsto> [''Ensure that there are no more than 3 digits before the decimal point.'']])), db0)"
    by (simp_all add: ExerciseListCreateAPIView_create_def
        ExerciseListCreateAPIView_perform_create_def ExerciseSerializer_create_def
        ExerciseSerializer_validate_def run_validation_def char_validators_def
        int_validators_def weight_field_def validate_precision_def hundredths_def
        max_digits_def decimal_places_def add_error_def nd get_workout_def Let_def
        db0_def workout1_def workout2_def)
  have ev2: "ExerciseListCreateAPIView_create 1 1
       \<lparr>d_name = Given ''Test Exercise'', d_sets = Given 100, d_reps = Given 5,
        d_weight = Absent, d_id = Absent\<rparr> db0 =
      (Inl (ValidationError (PerField [''sets'' \<mapsto> int_validators 1 99 100])), db0)"
    using bad
    by (simp add: ExerciseListCreateAPIView_create_def
        ExerciseSerializer_validate_def run_validation_Given_bad run_validation_Given_ok
        char_validators_def int_validators_Nil_iff weight_field_def add_error_def Let_def)
  show ?thesis
    using exercise_create_constraints [of 1 1
        "\<lparr>d_name = Given ''Test Exercise'', d_sets = Given 1, d_reps = Given 5, d_weight = Absent, d_id = Absent\<rparr>"
        db0] ev ev2
    by simp
qed

section \<open>Workouts\<close>

text \<open>
  Claim C9. A workout that a create request stores has the requester as its owner, the
  supplied name as its name, and is appended to the table; the \<open>owner\<close> key of the body
  is never read, so the outcome is the same whatever it holds. The list returns exactly
  the stored workouts whose owner is the requester.
\<close>

theorem workout_create_list_spec:
  "(\<forall>w d'. WorkoutListCreateAPIView_create request_user data d = (Inr w, d') \<longrightarrow>
       w_owner w = request_user \<and> wd_name data = Given (w_name w)
     \<and> workouts d' = workouts d @ [w])
   \<and> WorkoutListCreateAPIView_create request_user (data\<lparr>wd_owner := supplied_owner\<rparr>) d =
       WorkoutListCreateAPIView_create request_user data d
   \<and> (\<forall>w. w \<in> set (WorkoutListCreateAPIView_list request_user d) \<longleftrightarrow>
            w \<in> set (workouts d) \<and> w_owner w = request_user)
   \<and> WorkoutListCreateAPIView_list request_user d =
       filter (\<lambda>w. w_owner w = request_user) (workouts d)"
proof (intro conjI allI impI)
  fix w d'
  assume c: "WorkoutListCreateAPIView_create request_user data d = (Inr w, d')"
  then obtain n where v: "WorkoutSerializer_validate data = Inr n"
    and p: "WorkoutListCreateAPIView_perform_create request_user n d = (w, d')"
    by (auto simp: WorkoutListCreateAPIView_create_def split: sum.splits prod.splits)
  from v have "run_validation False True (char_validators 30) (wd_name data) = Inr (Some n)"
    by (auto simp: WorkoutSerializer_validate_def split: sum.splits option.splits)
  then have n: "wd_name data = Given n"
    by (auto dest: run_validation_required_Inr)
  from p show "w_owner w = request_user"
    by (auto simp: WorkoutListCreateAPIView_perform_create_def Let_def)
  from p n show "wd_name data = Given (w_name w)"
    by (auto simp: WorkoutListCreateAPIView_perform_create_def Let_def)
  from p show "workouts d' = workouts d @ [w]"
    by (auto simp: WorkoutListCreateAPIView_perform_create_def Let_def)
next
  show "WorkoutListCreateAPIView_create request_user (data\<lparr>wd_owner := supplied_owner\<rparr>) d =
       WorkoutListCreateAPIView_create request_user data d"
    by (simp add: WorkoutListCreateAPIView_create_def WorkoutSerializer_validate_def)
next
  fix w
  show "w \<in> set (WorkoutListCreateAPIView_list request_user d) \<longleftrightarrow>
            w \<in> set (workouts d) \<and> w_owner w = request_user"
    by (simp add: WorkoutListCreateAPIView_list_def WorkoutListCreateAPIView_get_queryset_def)
next
  show "WorkoutListCreateAPIView_list request_user d =
       filter (\<lambda>w. w_owner w = request_user) (workouts d)"
    by (simp add: WorkoutListCreateAPIView_list_def WorkoutListCreateAPIView_get_queryset_def)
qed

theorem workout_create_list_spec_witness:
  "WorkoutListCreateAPIView_create 1 \<lparr>wd_name = Given ''New workout'', wd_owner = Given 2\<rparr> db0 =
     (Inr \<lparr>w_pk = 3, w_name = ''New workout'', w_owner = 1\<rparr>,
      db0\<lparr>workouts := [workout1, workout2, \<lparr>w_pk = 3, w_name = ''New workout'', w_owner = 1\<rparr>],
           workout_seq := 4\<rparr>)
   \<and> WorkoutListCreateAPIView_create 1 \<lparr>wd_name = Given ''New workout'', wd_owner = Absent\<rparr> db0 =
     WorkoutListCreateAPIView_create 1 \<lparr>wd_name = Given ''New workout'', wd_owner = Given 2\<rparr> db0
   \<and> WorkoutListCreateAPIView_list 1 db0 = [workout1]
   \<and> WorkoutListCreateAPIView_list 2 db0 = [workout2]"
proof -
  have ev: "WorkoutListCreateAPIView_create 1 \<lparr>wd_name = Given ''New workout'', wd_owner = Given 2\<rparr> db0 =
     (Inr \<lparr>w_pk = 3, w_name = ''New workout'', w_owner = 1\<rparr>,
      db0\<lparr>workouts := [workout1, workout2, \<lparr>w_pk = 3, w_name = ''New workout'', w_owner = 1\<rparr>],
           workout_seq := 4\<rparr>)"
    by (simp add: WorkoutListCreateAPIView_create_def WorkoutSerializer_validate_def
        WorkoutListCreateAPIView_perform_create_def run_validation_def char_validators_def
        Let_def db0_def)
  show ?thesis
    using workout_create_list_spec
        [of 1 "\<lparr>wd_name = Given ''New workout'', wd_owner = Given 2\<rparr>" db0 Absent]
      workout_create_list_spec
        [of 2 "\<lparr>wd_name = Given ''New workout'', wd_owner = Given 2\<rparr>" db0 Absent] ev
    by (simp add: db0_def workout1_def workout2_def)
qed

section \<open>Account creation\<close>

lemma of_char_lower_char:
  "of_char (lower_char c) =
     (if (65 \<le> (of_char c :: nat) \<and> (of_char c :: nat) \<le> 90)
         \<or> (192 \<le> (of_char c :: nat) \<and> (of_char c :: nat) \<le> 214)
         \<or> (216 \<le> (of_char c :: nat) \<and> (of_char c :: nat) \<le> 222)
      then of_char c + 32 else (of_char c :: nat))"
  by (simp add: lower_char_def Let_def)

lemma lower_char_fixed:
  assumes "\<not> ((65 \<le> (of_char c :: nat) \<and> (of_char c :: nat) \<le> 90)
         \<or> (192 \<le> (of_char c :: nat) \<and> (of_char c :: nat) \<le> 214)
         \<or> (216 \<le> (of_char c :: nat) \<and> (of_char c :: nat) \<le> 222))"
  shows "lower_char c = c"
  using assms unfolding lower_char_def Let_def by (simp only: if_False)

lemma lower_char_idem [simp]: "lower_char (lower_char c) = lower_char c"
proof (rule lower_char_fixed)
  show "\<not> ((65 \<le> (of_char (lower_char c) :: nat) \<and> (of_char (lower_char c) :: nat) \<le> 90)
         \<or> (192 \<le> (of_char (lower_char c) :: nat) \<and> (of_char (lower_char c) :: nat) \<le> 214)
         \<or> (216 \<le> (of_char (lower_char c) :: nat) \<and> (of_char (lower_char c) :: nat) \<le> 222))"
    unfolding of_char_lower_char by (simp split: if_splits)
qed

lemma lower_idem [simp]: "lower (lower s) = lower s"
  by (simp add: lower_def)


lemma username_char_of_char:
  "username_char c \<longleftrightarrow>
     (let n = (of_char c :: nat)
      in (48 \<le> n \<and> n \<le> 57) \<or> (65 \<le> n \<and> n \<le> 90) \<or> (97 \<le> n \<and> n \<le> 122)
         \<or> n = 95 \<or> n = 46 \<or> n = 64 \<or> n = 43 \<or> n = 45
         \<or> n = 170 \<or> n = 178 \<or> n = 179 \<or> n = 181 \<or> n = 185 \<or> n = 186
         \<or> (188 \<le> n \<and> n \<le> 190)
         \<or> (192 \<le> n \<and> n \<le> 214) \<or> (216 \<le> n \<and> n \<le> 246) \<or> (248 \<le> n \<and> n \<le> 255))"
proof -
  have "c \<in> set ''_.@+-'' \<longleftrightarrow>
          (of_char c :: nat) = 95 \<or> (of_char c :: nat) = 46 \<or> (of_char c :: nat) = 64
          \<or> (of_char c :: nat) = 43 \<or> (of_char c :: nat) = 45"
  proof -
    have e: "c = d \<longleftrightarrow> (of_char c :: nat) = of_char d" for d
      by (auto dest: injD [OF inj_of_char])
    show ?thesis
      by (simp add: e)
  qed
  then show ?thesis
    by (simp add: username_char_def Let_def disj_assoc)
qed


lemma username_char_lower [simp]: "username_char (lower_char c) = username_char c"
proof (cases "(65 \<le> (of_char c :: nat) \<and> (of_char c :: nat) \<le> 90)
              \<or> (192 \<le> (of_char c :: nat) \<and> (of_char c :: nat) \<le> 214)
              \<or> (216 \<le> (of_char c :: nat) \<and> (of_char c :: nat) \<le> 222)")
  case True
  then have n: "(of_char (lower_char c) :: nat) = of_char c + 32"
    by (simp only: of_char_lower_char if_True)
  define m where "m = (of_char c :: nat)"
  from True have m: "(65 \<le> m \<and> m \<le> 90) \<or> (192 \<le> m \<and> m \<le> 214) \<or> (216 \<le> m \<and> m \<le> 222)"
    by (simp only: m_def)
  have a: "username_char c"
    unfolding username_char_of_char Let_def m_def [symmetric] using m by arith
  have b: "username_char (lower_char c)"
    unfolding username_char_of_char Let_def n m_def [symmetric] using m by arith
  from a b show ?thesis by simp
next
  case False
  then have "lower_char c = c"
    by (rule lower_char_fixed)
  then show ?thesis by simp
qed


lemma username_taken_append:
  "username_taken (d\<lparr>users := users d @ [row], user_seq := n\<rparr>) None name \<longleftrightarrow>
     username_taken d None name \<or> (pk row \<noteq> None \<and> username row = name)"
  by (auto simp: username_taken_def list_ex_iff)

lemma UserSerializer_validate_Inr:
  assumes "UserSerializer_validate d data = Inr (name, pw)"
  shows "\<exists>u. ud_username data = Given u \<and> username_validators d u = []
            \<and> \<not> list_ex (\<lambda>r. iexact d (username r) u) (users d) \<and> name = lower u
            \<and> ud_password data = Given pw"
proof -
  let ?u = "case run_validation False True (username_validators d) (ud_username data) of
              Inr (Some v) \<Rightarrow>
                (case validate_username d v of Inl ms \<Rightarrow> Inl ms | Inr v' \<Rightarrow> Inr (Some v'))
            | r \<Rightarrow> r"
  let ?p = "run_validation False True (char_validators 128) (ud_password data)"
  from assms have u: "?u = Inr (Some name)" and p: "?p = Inr (Some pw)"
    by (auto simp: UserSerializer_validate_def Let_def split: sum.splits option.splits)
  from u obtain y where y: "run_validation False True (username_validators d) (ud_username data) = Inr y"
    by (auto split: sum.splits)
  from run_validation_required_Inr [OF y] obtain v where
    v: "ud_username data = Given v" "y = Some v" "username_validators d v = []"
    by blast
  from u y v have "validate_username d v = Inr name"
    by (auto split: sum.splits)
  then have "\<not> list_ex (\<lambda>r. iexact d (username r) v) (users d) \<and> name = lower v"
    by (auto simp: validate_username_def split: if_splits)
  moreover from run_validation_required_Inr [OF p] have "ud_password data = Given pw"
    by auto
  ultimately show ?thesis
    using v by blast
qed

text \<open>
  \<^verbatim>\<open>UserSerializer.create\<close> has three outcomes: the validator's rejection, the store's
  refusal of a username it has, and the new row.
\<close>

lemma UserSerializer_create_rejected:
  assumes "validate_password pw
             \<lparr>pk = None, username = name, password = [], protein_goal = 150,
              todays_protein = 0, protein_last_update = today\<rparr> \<noteq> []"
  shows "UserSerializer_create validate_password make_password today (name, pw) d =
           (Inl (ValidationError (PerField [''password'' \<mapsto> validate_password pw
             \<lparr>pk = None, username = name, password = [], protein_goal = 150,
              todays_protein = 0, protein_last_update = today\<rparr>])), d)"
  using assms
  by (simp add: UserSerializer_create_def Let_def split: list.splits)

lemma UserSerializer_create_taken:
  assumes "validate_password pw
             \<lparr>pk = None, username = name, password = [], protein_goal = 150,
              todays_protein = 0, protein_last_update = today\<rparr> = []"
    and "username_taken d None (lower name)"
  shows "UserSerializer_create validate_password make_password today (name, pw) d =
           (Inl (IntegrityError ''UNIQUE constraint failed: api_user.username''), d)"
proof (cases "name = []")
  case True
  with assms show ?thesis
    by (simp add: UserSerializer_create_def User_save_def Model_save_def Let_def lower_def)
next
  case False
  with assms show ?thesis
    by (simp add: UserSerializer_create_def User_save_def Model_save_def Let_def)
qed

lemma UserSerializer_create_ok:
  assumes "validate_password pw
             \<lparr>pk = None, username = name, password = [], protein_goal = 150,
              todays_protein = 0, protein_last_update = today\<rparr> = []"
    and "\<not> username_taken d None (lower name)"
  shows "UserSerializer_create validate_password make_password today (name, pw) d =
           (Inr \<lparr>pk = Some (user_seq d), username = lower name, password = make_password pw,
                 protein_goal = 150, todays_protein = 0, protein_last_update = today\<rparr>,
            d\<lparr>users := users d @
                  [\<lparr>pk = Some (user_seq d), username = lower name, password = make_password pw,
                    protein_goal = 150, todays_protein = 0, protein_last_update = today\<rparr>],
              user_seq := Suc (user_seq d)\<rparr>)"
proof (cases "name = []")
  case True
  with assms show ?thesis
    by (simp add: UserSerializer_create_def User_save_def Model_save_def Let_def lower_def)
next
  case False
  with assms show ?thesis
    by (simp add: UserSerializer_create_def User_save_def Model_save_def Let_def)
qed

lemma UserSerializer_create_cases:
  obtains
    (rejected) msgs where
      "UserSerializer_create validate_password make_password today (name, pw) d =
         (Inl (ValidationError (PerField [''password'' \<mapsto> msgs])), d)"
  | (taken)
      "username_taken d None (lower name)"
      "UserSerializer_create validate_password make_password today (name, pw) d =
         (Inl (IntegrityError ''UNIQUE constraint failed: api_user.username''), d)"
  | (ok)
      "\<not> username_taken d None (lower name)"
      "UserSerializer_create validate_password make_password today (name, pw) d =
           (Inr \<lparr>pk = Some (user_seq d), username = lower name, password = make_password pw,
                 protein_goal = 150, todays_protein = 0, protein_last_update = today\<rparr>,
            d\<lparr>users := users d @
                  [\<lparr>pk = Some (user_seq d), username = lower name, password = make_password pw,
                    protein_goal = 150, todays_protein = 0, protein_last_update = today\<rparr>],
              user_seq := Suc (user_seq d)\<rparr>)"
proof -
  let ?new = "\<lparr>pk = None, username = name, password = [], protein_goal = 150,
              todays_protein = 0, protein_last_update = today\<rparr>"
  show ?thesis
  proof (cases "validate_password pw ?new = []")
    case False
    have "UserSerializer_create validate_password make_password today (name, pw) d =
           (Inl (ValidationError (PerField [''password'' \<mapsto> validate_password pw ?new])), d)"
      using False by (rule UserSerializer_create_rejected)
    then show ?thesis by (rule rejected)
  next
    case True
    show ?thesis
    proof (cases "username_taken d None (lower name)")
      case t: True
      have "UserSerializer_create validate_password make_password today (name, pw) d =
           (Inl (IntegrityError ''UNIQUE constraint failed: api_user.username''), d)"
        using True t by (rule UserSerializer_create_taken)
      with t show ?thesis by (rule taken)
    next
      case f: False
      have "UserSerializer_create validate_password make_password today (name, pw) d =
           (Inr \<lparr>pk = Some (user_seq d), username = lower name, password = make_password pw,
                 protein_goal = 150, todays_protein = 0, protein_last_update = today\<rparr>,
            d\<lparr>users := users d @
                  [\<lparr>pk = Some (user_seq d), username = lower name, password = make_password pw,
                    protein_goal = 150, todays_protein = 0, protein_last_update = today\<rparr>],
              user_seq := Suc (user_seq d)\<rparr>)"
        using True f by (rule UserSerializer_create_ok)
      with f show ?thesis by (rule ok)
    qed
  qed
qed

lemma CreateUserAPIView_create_Inr:
  assumes "CreateUserAPIView_create validate_password make_password today data d = (Inr resp, d')"
  obtains u pw where
    "ud_username data = Given u" "ud_password data = Given pw"
    "username_validators d u = []"
    "\<not> list_ex (\<lambda>r. iexact d (username r) u) (users d)"
    "\<not> username_taken d None (lower u)"
    "d' = d\<lparr>users := users d @
                  [\<lparr>pk = Some (user_seq d), username = lower u, password = make_password pw,
                    protein_goal = 150, todays_protein = 0, protein_last_update = today\<rparr>],
              user_seq := Suc (user_seq d)\<rparr>"
    "resp = UserSerializer_data
              \<lparr>pk = Some (user_seq d), username = lower u, password = make_password pw,
               protein_goal = 150, todays_protein = 0, protein_last_update = today\<rparr>"
proof -
  from assms obtain name pw saved where
    v: "UserSerializer_validate d data = Inr (name, pw)"
    and c: "UserSerializer_create validate_password make_password today (name, pw) d = (Inr saved, d')"
    and r: "resp = UserSerializer_data saved"
    by (auto simp: CreateUserAPIView_create_def split: sum.splits prod.splits)
  from UserSerializer_validate_Inr [OF v] obtain u where
    u: "ud_username data = Given u" "username_validators d u = []"
       "\<not> list_ex (\<lambda>r. iexact d (username r) u) (users d)" "name = lower u"
       "ud_password data = Given pw"
    by blast
  let ?saved = "\<lparr>pk = Some (user_seq d), username = lower name, password = make_password pw,
                 protein_goal = 150, todays_protein = 0, protein_last_update = today\<rparr>"
  have free: "\<not> username_taken d None (lower name)"
    and ok_eq: "UserSerializer_create validate_password make_password today (name, pw) d =
          (Inr ?saved, d\<lparr>users := users d @ [?saved], user_seq := Suc (user_seq d)\<rparr>)"
    using c
    by (cases rule: UserSerializer_create_cases
          [where validate_password = validate_password and make_password = make_password
             and today = today and name = name and pw = pw and d = d]; simp)+
  have "(Inr saved :: error + user, d') =
          (Inr ?saved, d\<lparr>users := users d @ [?saved], user_seq := Suc (user_seq d)\<rparr>)"
    by (rule trans [OF c [symmetric] ok_eq])
  then have both: "saved = ?saved
      \<and> d' = d\<lparr>users := users d @ [?saved], user_seq := Suc (user_seq d)\<rparr>"
    by (simp only: prod.inject sum.inject)
  note s = conjunct1 [OF both] and d = conjunct2 [OF both]
  have l: "lower name = lower u"
    using u(4) by simp
  have "saved = \<lparr>pk = Some (user_seq d), username = lower u, password = make_password pw,
                 protein_goal = 150, todays_protein = 0, protein_last_update = today\<rparr>"
    and "d' = d\<lparr>users := users d @
                  [\<lparr>pk = Some (user_seq d), username = lower u, password = make_password pw,
                    protein_goal = 150, todays_protein = 0, protein_last_update = today\<rparr>],
              user_seq := Suc (user_seq d)\<rparr>"
    unfolding s d l by simp_all
  with u r free l show ?thesis
    by (intro that [of u pw]) simp_all
qed

lemma CreateUserAPIView_create_Inl:
  assumes "CreateUserAPIView_create validate_password make_password today data d = (Inl e, d')"
  shows "d' = d"
proof (cases "UserSerializer_validate d data")
  case (Inl errs)
  with assms show ?thesis by (simp add: CreateUserAPIView_create_def)
next
  case (Inr vd)
  obtain name pw where vd: "vd = (name, pw)" by (cases vd)
  show ?thesis
    using assms Inr vd
    by (cases rule: UserSerializer_create_cases
          [where validate_password = validate_password and make_password = make_password
             and today = today and name = name and pw = pw and d = d])
       (simp_all add: CreateUserAPIView_create_def)
qed

text \<open>
  Claim C8. The body of a successful account creation is exactly the key of the stored
  row and its username; it has no \<open>password\<close> entry, raw or hashed. When the body passes
  the field validation and the password validator rejects the password, the create fails
  with a ValidationError whose dictionary maps \<open>password\<close> to the validator's messages.
  A create that fails stores nothing.
\<close>

theorem create_user_response_spec:
  "(\<forall>resp d'. CreateUserAPIView_create validate_password make_password today data d = (Inr resp, d')
       \<longrightarrow> (\<exists>row. users d' = users d @ [row] \<and> pk row = Some (user_seq d)
              \<and> resp = [(''id'', JInt (int (user_seq d))), (''username'', JStr (username row))])
         \<and> map_of resp ''password'' = None)
   \<and> (\<forall>name pw. UserSerializer_validate d data = Inr (name, pw)
         \<and> validate_password pw
              \<lparr>pk = None, username = name, password = [], protein_goal = 150,
               todays_protein = 0, protein_last_update = today\<rparr> \<noteq> []
       \<longrightarrow> CreateUserAPIView_create validate_password make_password today data d =
             (Inl (ValidationError (PerField [''password'' \<mapsto> validate_password pw
                \<lparr>pk = None, username = name, password = [], protein_goal = 150,
                 todays_protein = 0, protein_last_update = today\<rparr>])), d))
   \<and> (\<forall>e d'. CreateUserAPIView_create validate_password make_password today data d = (Inl e, d')
       \<longrightarrow> d' = d)"
proof (intro conjI allI impI)
  fix resp d'
  assume c: "CreateUserAPIView_create validate_password make_password today data d = (Inr resp, d')"
  from c obtain u pw where
    d': "d' = d\<lparr>users := users d @
                  [\<lparr>pk = Some (user_seq d), username = lower u, password = make_password pw,
                    protein_goal = 150, todays_protein = 0, protein_last_update = today\<rparr>],
              user_seq := Suc (user_seq d)\<rparr>"
    and resp: "resp = UserSerializer_data
              \<lparr>pk = Some (user_seq d), username = lower u, password = make_password pw,
               protein_goal = 150, todays_protein = 0, protein_last_update = today\<rparr>"
    by (rule CreateUserAPIView_create_Inr)
  have r: "resp = [(''id'', JInt (int (user_seq d))), (''username'', JStr (lower u))]"
    unfolding resp
    by (simp add: UserSerializer_data_def UserSerializer_fields_def
        UserSerializer_write_only_def user_attr_def)
  show "\<exists>row. users d' = users d @ [row] \<and> pk row = Some (user_seq d)
              \<and> resp = [(''id'', JInt (int (user_seq d))), (''username'', JStr (username row))]"
    using d' r by simp
  show "map_of resp ''password'' = None"
    unfolding r by simp
next
  fix name pw
  assume "UserSerializer_validate d data = Inr (name, pw)
         \<and> validate_password pw
              \<lparr>pk = None, username = name, password = [], protein_goal = 150,
               todays_protein = 0, protein_last_update = today\<rparr> \<noteq> []"
  then show "CreateUserAPIView_create validate_password make_password today data d =
             (Inl (ValidationError (PerField [''password'' \<mapsto> validate_password pw
                \<lparr>pk = None, username = name, password = [], protein_goal = 150,
                 todays_protein = 0, protein_last_update = today\<rparr>])), d)"
    by (simp add: CreateUserAPIView_create_def UserSerializer_create_rejected)
next
  fix e d'
  assume "CreateUserAPIView_create validate_password make_password today data d = (Inl e, d')"
  then show "d' = d" by (rule CreateUserAPIView_create_Inl)
qed


theorem create_user_response_spec_witness:
  "CreateUserAPIView_create minimum_length_validator tagged_hash 100
     \<lparr>ud_username = Given ''New_User'', ud_password = Given ''StrongPass123!''\<rparr> db0 =
     (Inr [(''id'', JInt 3), (''username'', JStr ''new_user'')],
      db0\<lparr>users := [user1, user2,
             \<lparr>pk = Some 3, username = ''new_user'', password = ''hash$StrongPass123!'',
              protein_goal = 150, todays_protein = 0, protein_last_update = 100\<rparr>],
           user_seq := 4\<rparr>)
   \<and> CreateUserAPIView_create minimum_length_validator tagged_hash 100
     \<lparr>ud_username = Given ''New_User'', ud_password = Given ''short''\<rparr> db0 =
     (Inl (ValidationError (PerField [''password'' \<mapsto> [''This password is too short.'']])), db0)"
proof -
  have f: "username_validators db0 ''New_User'' = []"
    "validate_username db0 ''New_User'' = Inr ''new_user''"
    "char_validators 128 ''StrongPass123!'' = []" "char_validators 128 ''short'' = []"
    by code_simp+
  have v1: "UserSerializer_validate db0
      \<lparr>ud_username = Given ''New_User'', ud_password = Given ''StrongPass123!''\<rparr>
      = Inr (''new_user'', ''StrongPass123!'')"
    by (simp add: UserSerializer_validate_def run_validation_def f)
  have v2: "UserSerializer_validate db0
      \<lparr>ud_username = Given ''New_User'', ud_password = Given ''short''\<rparr>
      = Inr (''new_user'', ''short'')"
    by (simp add: UserSerializer_validate_def run_validation_def f)
  have low: "lower ''new_user'' = ''new_user''"
    by code_simp
  have free: "\<not> username_taken db0 None ''new_user''"
    by code_simp
  have ev: "CreateUserAPIView_create minimum_length_validator tagged_hash 100
     \<lparr>ud_username = Given ''New_User'', ud_password = Given ''StrongPass123!''\<rparr> db0 =
     (Inr [(''id'', JInt 3), (''username'', JStr ''new_user'')],
      db0\<lparr>users := [user1, user2,
             \<lparr>pk = Some 3, username = ''new_user'', password = ''hash$StrongPass123!'',
              protein_goal = 150, todays_protein = 0, protein_last_update = 100\<rparr>],
           user_seq := 4\<rparr>)"
    by (simp add: CreateUserAPIView_create_def v1 UserSerializer_create_def
        minimum_length_validator_def tagged_hash_def User_save_def Model_save_def Let_def low
        free UserSerializer_data_def UserSerializer_fields_def UserSerializer_write_only_def
        user_attr_def)
      (simp add: db0_def)
  show ?thesis
    using create_user_response_spec [of minimum_length_validator tagged_hash 100
        "\<lparr>ud_username = Given ''New_User'', ud_password = Given ''short''\<rparr>" db0] v2 ev
    by (simp add: minimum_length_validator_def)
qed










end
